theory Spec2Isabelle
  imports Main "HOL-Library.Sublist" "HOL-Library.AList"
begin

section \<open>Errors of the Go runtime and standard library\<close>

text \<open>
  A Go \<open>error\<close> is modelled by a datatype with one constructor per kind the plugin
  can meet: the \<open>*fs.PathError\<close> of \<open>os.ReadFile\<close> and \<open>os.WriteFile\<close>, the syntax error
  of the JSON decoder, and the errors built by \<open>fmt.Errorf\<close>. \<open>Error\<close> is the method
  \<open>err.Error()\<close>. \<open>fmt.Errorf\<close> with \<open>%w\<close> keeps the cause only for \<open>errors.Is\<close>, which
  the plugin never calls; \<open>os.IsNotExist\<close> does not unwrap, so a wrapped error is
  modelled by its text alone.
\<close>

datatype errno = ENOENT | EACCES

datatype error =
    PathError string string errno
  | SyntaxError string
  | Errorf string

fun errno_text :: "errno \<Rightarrow> string" where
  "errno_text ENOENT = ''no such file or directory''"
| "errno_text EACCES = ''permission denied''"

fun Error :: "error \<Rightarrow> string" where
  "Error (PathError op path e) = op @ '' '' @ path @ '': '' @ errno_text e"
| "Error (SyntaxError msg) = msg"
| "Error (Errorf msg) = msg"

fun os_IsNotExist :: "error \<Rightarrow> bool" where
  "os_IsNotExist (PathError op path ENOENT) = True"
| "os_IsNotExist other = False"

section \<open>Go maps\<close>

text \<open>
  A Go map is an association list: \<open>map_of\<close> reads it (the first binding of a key is
  the one the map holds), \<open>AList.update\<close> writes it. A \<open>range\<close> loop visits every key
  once, with the value the map holds for it, in an order Go leaves open; \<open>go_range\<close>
  is one such order.
\<close>

definition go_range :: "('k \<times> 'v) list \<Rightarrow> ('k \<times> 'v) list" where
  "go_range m = AList.clearjunk m"

section \<open>Package credentials\<close>

record JiraCredentials =
  InstanceURL :: string
  Email :: string
  APIToken :: string

record CredentialsStorage =
  filePath :: string

text \<open>
  A Go \<open>map[string]JiraCredentials\<close> is an association list read with \<open>map_of\<close> and
  written with \<open>AList.update\<close>; the \<open>nil\<close> map is \<open>None\<close>.

  The credentials file is modelled by what \<open>encoding/json\<close> makes of its bytes: text
  that does not decode into the map (with the decoder's message), the literal \<open>null\<close>
  (which decodes to the \<open>nil\<close> map), or a JSON object. The file system holds that one
  file: \<open>content\<close> is \<open>None\<close> while the file does not exist, \<open>may_read\<close> says that
  the process may open the existing file for reading, \<open>may_write\<close> that
  \<open>os.WriteFile\<close> may create or truncate it. \<open>os.WriteFile\<close> applies its permission
  argument \<open>0600\<close> only when it creates the file, so a file it creates is readable and
  a file it overwrites keeps its mode.
\<close>

type_synonym cred_map = "(string \<times> JiraCredentials) list"

datatype file_content = Malformed string | JsonNull | JsonObject cred_map

record file_system =
  content :: "file_content option"
  may_read :: bool
  may_write :: bool

definition os_ReadFile :: "file_system \<Rightarrow> string \<Rightarrow> error + file_content" where
  "os_ReadFile fs path =
     (case content fs of
        None \<Rightarrow> Inl (PathError ''open'' path ENOENT)
      | Some c \<Rightarrow> if may_read fs then Inr c else Inl (PathError ''open'' path EACCES))"

definition os_WriteFile :: "file_system \<Rightarrow> string \<Rightarrow> file_content \<Rightarrow> error option \<times> file_system" where
  "os_WriteFile fs path data =
     (if may_write fs
      then (None, fs\<lparr>content := Some data,
                      may_read := (case content fs of None \<Rightarrow> True | Some c \<Rightarrow> may_read fs)\<rparr>)
      else (Some (PathError ''open'' path EACCES), fs))"

fun json_Unmarshal :: "file_content \<Rightarrow> error + cred_map option" where
  "json_Unmarshal (Malformed msg) = Inl (SyntaxError msg)"
| "json_Unmarshal JsonNull = Inr None"
| "json_Unmarshal (JsonObject m) = Inr (Some m)"

fun json_MarshalIndent :: "cred_map option \<Rightarrow> error + file_content" where
  "json_MarshalIndent None = Inr JsonNull"
| "json_MarshalIndent (Some m) = Inr (JsonObject m)"

text \<open>
  \<open>loadAllCredentials\<close> and \<open>GetCredentials\<close> return either the error or the value,
  never both and never neither: their Go pair is a sum here, \<open>Inl\<close> the error.
  \<open>GetAllSpaces\<close> returns an empty slice beside its error and keeps the pair, and
  \<open>SaveCredentials\<close> returns its error, or \<open>None\<close> for \<open>nil\<close>, beside the file
  system it leaves.
\<close>

definition loadAllCredentials ::
  "CredentialsStorage \<Rightarrow> file_system \<Rightarrow> error + cred_map option" where
  "loadAllCredentials cs fs =
     (case os_ReadFile fs (filePath cs) of
        Inl err \<Rightarrow> Inl err
      | Inr data \<Rightarrow>
          (case json_Unmarshal data of
             Inl err \<Rightarrow> Inl (Errorf (''failed to unmarshal credentials: '' @ Error err))
           | Inr allCreds \<Rightarrow> Inr allCreds))"

definition spaceKey_of :: "string \<Rightarrow> string" where
  "spaceKey_of spaceID = (if spaceID = '''' then ''default'' else spaceID)"

text \<open>
  \<open>load_failure\<close> is the guard \<open>err != nil && !os.IsNotExist(err)\<close> of
  \<open>SaveCredentials\<close>: the error that makes the save give up, if any. \<open>loaded_map\<close>
  is the map the save goes on with: the one loaded, or a new one (\<open>make\<close>) when
  \<open>allCreds\<close> is \<open>nil\<close>, after a missing file or a \<open>null\<close> document.
\<close>

fun load_failure :: "error + cred_map option \<Rightarrow> error option" where
  "load_failure (Inl err) = (if os_IsNotExist err then None else Some err)"
| "load_failure (Inr allCreds) = None"

fun loaded_map :: "error + cred_map option \<Rightarrow> cred_map" where
  "loaded_map (Inr (Some allCreds)) = allCreds"
| "loaded_map other = []"

definition SaveCredentials ::
  "CredentialsStorage \<Rightarrow> file_system \<Rightarrow> string \<Rightarrow> JiraCredentials \<Rightarrow> error option \<times> file_system" where
  "SaveCredentials cs fs spaceID creds =
     (let loaded = loadAllCredentials cs fs
      in case load_failure loaded of
           Some err \<Rightarrow> (Some (Errorf (''failed to load existing credentials: '' @ Error err)), fs)
         | None \<Rightarrow>
            (let spaceKey = spaceKey_of spaceID;
                 allCreds = loaded_map loaded;
                 allCreds = AList.update spaceKey creds allCreds
             in case json_MarshalIndent (Some allCreds) of
                  Inl err \<Rightarrow> (Some (Errorf (''failed to marshal credentials: '' @ Error err)), fs)
                | Inr data \<Rightarrow>
                    (case os_WriteFile fs (filePath cs) data of
                       (Some err, fs') \<Rightarrow>
                         (Some (Errorf (''failed to write credentials file: '' @ Error err)), fs')
                     | (None, fs') \<Rightarrow> (None, fs'))))"

definition GetCredentials ::
  "CredentialsStorage \<Rightarrow> file_system \<Rightarrow> string \<Rightarrow> error + JiraCredentials" where
  "GetCredentials cs fs spaceID =
     (case loadAllCredentials cs fs of
        Inl err \<Rightarrow> Inl err
      | Inr allCreds \<Rightarrow>
          (let spaceKey = spaceKey_of spaceID
           in case map_of (case allCreds of None \<Rightarrow> [] | Some m \<Rightarrow> m) spaceKey of
                None \<Rightarrow> Inl (Errorf (''credentials not found for space: '' @ spaceKey))
              | Some creds \<Rightarrow> Inr creds))"

text \<open>
  \<open>HasCredentials\<close> returns \<open>err == nil && creds != nil\<close>; the pointer is \<open>nil\<close>
  exactly beside an error.
\<close>

definition HasCredentials :: "CredentialsStorage \<Rightarrow> file_system \<Rightarrow> string \<Rightarrow> bool" where
  "HasCredentials cs fs spaceID =
     (case GetCredentials cs fs spaceID of Inl err \<Rightarrow> False | Inr creds \<Rightarrow> True)"

definition GetAllSpaces ::
  "CredentialsStorage \<Rightarrow> file_system \<Rightarrow> string list \<times> error option" where
  "GetAllSpaces cs fs =
     (case loadAllCredentials cs fs of
        Inl err \<Rightarrow> ([], Some err)
      | Inr allCreds \<Rightarrow>
          (map fst (go_range (case allCreds of None \<Rightarrow> [] | Some m \<Rightarrow> m)), None))"


section \<open>Topic router\<close>

text \<open>
  \<open>strings.Split(s, ".")\<close>: the substrings between the separators, in order; a string
  without separator is the one segment, the empty string included.
\<close>

fun strings_Split :: "string \<Rightarrow> char \<Rightarrow> string list" where
  "strings_Split [] sep = [[]]"
| "strings_Split (c # cs) sep =
     (if c = sep then [] # strings_Split cs sep
      else (case strings_Split cs sep of
              [] \<Rightarrow> [[c]]
            | p # ps \<Rightarrow> (c # p) # ps))"

fun strings_Join :: "string list \<Rightarrow> string \<Rightarrow> string" where
  "strings_Join [] sep = []"
| "strings_Join [s] sep = s"
| "strings_Join (s # t # ss) sep = s @ sep @ strings_Join (t # ss) sep"

text \<open>
  The \<open>for i, part := range parts\<close> loop of \<open>extractSpaceIdFromSubject\<close>, by index as
  the source has it; all three copies of the function in the repository are the same.
\<close>

function extract_loop :: "string list \<Rightarrow> nat \<Rightarrow> string" where
  "extract_loop parts i =
     (if i < length parts
      then (if parts ! i = ''bin'' \<and> i + 1 < length parts then parts ! (i + 1)
            else extract_loop parts (i + 1))
      else '''')"
  by pat_completeness auto
termination
  by (relation "measure (\<lambda>(parts, i). length parts - i)") auto

declare extract_loop.simps [simp del]

definition extractSpaceIdFromSubject :: "string \<Rightarrow> string" where
  "extractSpaceIdFromSubject subject = extract_loop (strings_Split subject CHR ''.'') 0"

section \<open>Dynamic values and the JSON library\<close>

text \<open>
  A Go value of type \<open>any\<close> as the JSON decoder produces it. \<open>Null\<close> is \<open>nil\<close>; an
  object is a \<open>map[string]any\<close>, again an association list.
\<close>

datatype any =
    Null
  | Str string
  | Boolean bool
  | Number int
  | Arr "any list"
  | Obj "(string \<times> any) list"

type_synonym go_map = "(string \<times> any) list"

text \<open>
  The type assertions of the handlers on a map entry: \<open>v, _ := m[k].(string)\<close> gives
  the empty string unless the entry is a string, \<open>m[k].(map[string]interface{})\<close>
  succeeds on an object only, \<open>m[k].(bool)\<close> on a boolean only.
\<close>

fun string_of :: "any option \<Rightarrow> string" where
  "string_of (Some (Str s)) = s"
| "string_of other = ''''"

fun map_of_any :: "any option \<Rightarrow> go_map option" where
  "map_of_any (Some (Obj m)) = Some m"
| "map_of_any other = None"

fun bool_of :: "any option \<Rightarrow> bool option" where
  "bool_of (Some (Boolean b)) = Some b"
| "bool_of other = None"

text \<open>
  The loop \<open>for key, value := range src { if cond { dst[key] = value } }\<close>, which the
  handlers and the client run to copy the caller's extra fields; \<open>cond\<close> is
  \<open>value != nil && value != ""\<close>, in the handlers together with the test that the key is
  not a known field.
\<close>

fun range_assign :: "(string \<Rightarrow> any \<Rightarrow> bool) \<Rightarrow> go_map \<Rightarrow> go_map \<Rightarrow> go_map" where
  "range_assign cond [] dst = dst"
| "range_assign cond ((key, val) # rest) dst =
     range_assign cond rest (if cond key val then AList.update key val dst else dst)"

definition provided :: "any \<Rightarrow> bool" where
  "provided val = (val \<noteq> Null \<and> val \<noteq> Str '''')"

text \<open>
  The JSON library \<open>sonic\<close> is not part of the repository. Its encoder and its decoders
  (one per target type the plugin decodes into) are parameters of the model: a decoder
  returns the decoded value or the text of its error.
\<close>

record jiraError =
  ErrorMessages :: "string list"
  Errors :: "(string \<times> string) list"

record sonic =
  Marshal :: "any \<Rightarrow> string + string"
  Unmarshal_request :: "string \<Rightarrow> string + go_map option"
  Unmarshal_jiraError :: "string \<Rightarrow> string + jiraError"
  Unmarshal_map :: "string \<Rightarrow> string + go_map"
  Unmarshal_maps :: "string \<Rightarrow> string + go_map list"

section \<open>Package client\<close>

text \<open>\<open>%d\<close> of a status code, \<open>strings.TrimSuffix\<close> and \<open>strings.HasPrefix\<close>.\<close>

fun itoa :: "nat \<Rightarrow> string" where
  "itoa n = (if n < 10 then [''0123456789'' ! n] else itoa (n div 10) @ [''0123456789'' ! (n mod 10)])"

declare itoa.simps [simp del]

definition strings_TrimSuffix :: "string \<Rightarrow> string \<Rightarrow> string" where
  "strings_TrimSuffix s suf = (if suffix suf s then take (length s - length suf) s else s)"

definition strings_HasPrefix :: "string \<Rightarrow> string \<Rightarrow> bool" where
  "strings_HasPrefix s pre = prefix pre s"

record JiraClient =
  BaseURL :: string
  jc_Email :: string
  jc_APIToken :: string

definition NewJiraClient :: "JiraCredentials \<Rightarrow> JiraClient" where
  "NewJiraClient creds =
     \<lparr>BaseURL = InstanceURL creds, jc_Email = Email creds, jc_APIToken = APIToken creds\<rparr>"

text \<open>
  The network is a parameter too: what \<open>http.NewRequest\<close> and \<open>HTTPClient.Do\<close> make of
  a request. A response carries its status code and what \<open>io.ReadAll\<close> gives on its
  body: the bytes, and the error if the read fails. A function of the client returns
  its Go result as a sum (the error, or the value) and, beside it, the requests it has
  put on the network.
\<close>

record http_request =
  Method :: string
  URL :: string
  Header :: "(string \<times> string) list"
  ReqBody :: "string option"

record http_response =
  StatusCode :: nat
  Body :: string
  ReadError :: "string option"

datatype transport_result =
    NewRequestError string
  | DoError string
  | Response http_response

type_synonym transport = "http_request \<Rightarrow> transport_result"

definition makeRequest ::
  "transport \<Rightarrow> JiraClient \<Rightarrow> string \<Rightarrow> string \<Rightarrow> string option \<Rightarrow>
   (error + http_response) \<times> http_request list" where
  "makeRequest tr jc method endpoint body =
     (let baseURL = strings_TrimSuffix (BaseURL jc) ''/'';
          endpoint = (if \<not> strings_HasPrefix endpoint ''/'' then ''/'' @ endpoint else endpoint);
          url = baseURL @ endpoint;
          req = \<lparr>Method = method, URL = url,
                 Header = [(''Authorization'', ''Bearer '' @ jc_APIToken jc),
                           (''Content-Type'', ''application/json''),
                           (''Accept'', ''application/json'')],
                 ReqBody = body\<rparr>
      in case tr req of
           NewRequestError e \<Rightarrow> (Inl (Errorf (''failed to create request: '' @ e)), [])
         | DoError e \<Rightarrow> (Inl (Errorf (''failed to make request: '' @ e)), [req])
         | Response resp \<Rightarrow> (Inr resp, [req]))"

definition api_error :: "nat \<Rightarrow> string \<Rightarrow> error" where
  "api_error status msg = Errorf (''Jira API error (status '' @ itoa status @ ''): '' @ msg)"

definition ListProjects ::
  "transport \<Rightarrow> sonic \<Rightarrow> JiraClient \<Rightarrow> (error + go_map list) \<times> http_request list" where
  "ListProjects tr sn jc =
     (case makeRequest tr jc ''GET'' ''/rest/api/2/project'' None of (r, calls) \<Rightarrow>
        (case r of
           Inl err \<Rightarrow> Inl err
         | Inr resp \<Rightarrow>
             if StatusCode resp \<noteq> 200 then Inl (api_error (StatusCode resp) (Body resp))
             else (case ReadError resp of
                     Some e \<Rightarrow> Inl (Errorf (''failed to read response: '' @ e))
                   | None \<Rightarrow>
                      (case Unmarshal_maps sn (Body resp) of
                         Inl e \<Rightarrow> Inl (Errorf (''failed to unmarshal projects: '' @ e))
                       | Inr projects \<Rightarrow> Inr projects)),
         calls))"

text \<open>
  The error of a rejected call, as \<open>CreateIssue\<close>, \<open>DeleteIssue\<close> and \<open>AddComment\<close>
  build it: the messages of the structured error body and its field errors, joined;
  the raw body when the body does not decode or holds neither. \<open>label\<close> is the text
  before the field errors, \<open>Missing or invalid fields: \<close> in \<open>CreateIssue\<close> and
  \<open>Errors: \<close> in the other two.
\<close>

definition structured_error :: "sonic \<Rightarrow> string \<Rightarrow> nat \<Rightarrow> string \<Rightarrow> error" where
  "structured_error sn label status bodyBytes =
     (case Unmarshal_jiraError sn bodyBytes of
        Inl e \<Rightarrow> api_error status bodyBytes
      | Inr je \<Rightarrow>
          (let errorParts = ErrorMessages je;
               fieldErrors = map (\<lambda>(field, msg). field @ '': '' @ msg) (go_range (Errors je));
               errorParts =
                 (if length (go_range (Errors je)) > 0 \<and> length fieldErrors > 0
                  then errorParts @ [label @ strings_Join fieldErrors ''; '']
                  else errorParts)
           in if length errorParts > 0
              then api_error status (strings_Join errorParts ''. '')
              else api_error status bodyBytes))"

definition CreateIssue_fields :: "string \<Rightarrow> string \<Rightarrow> string \<Rightarrow> string \<Rightarrow> go_map \<Rightarrow> go_map" where
  "CreateIssue_fields projectKey issueType summary description additionalFields =
     (let fields = [(''project'', Obj [(''key'', Str projectKey)]),
                    (''summary'', Str summary),
                    (''issuetype'', Obj [(''name'', Str issueType)])];
          fields = (if description \<noteq> '''' then AList.update ''description'' (Str description) fields
                    else fields)
      in range_assign (\<lambda>key val. provided val) (go_range additionalFields) fields)"

definition CreateIssue ::
  "transport \<Rightarrow> sonic \<Rightarrow> JiraClient \<Rightarrow> string \<Rightarrow> string \<Rightarrow> string \<Rightarrow> string \<Rightarrow> go_map \<Rightarrow>
   (error + go_map) \<times> http_request list" where
  "CreateIssue tr sn jc projectKey issueType summary description additionalFields =
     (let fields = CreateIssue_fields projectKey issueType summary description additionalFields;
          requestBody = Obj [(''fields'', Obj fields)]
      in case Marshal sn requestBody of
           Inl e \<Rightarrow> (Inl (Errorf (''failed to marshal request body: '' @ e)), [])
         | Inr bodyBytes \<Rightarrow>
            (case makeRequest tr jc ''POST'' ''/rest/api/2/issue'' (Some bodyBytes) of (r, calls) \<Rightarrow>
               (case r of
                  Inl err \<Rightarrow> Inl err
                | Inr resp \<Rightarrow>
                   (case ReadError resp of
                      Some e \<Rightarrow> Inl (Errorf (''failed to read response: '' @ e))
                    | None \<Rightarrow>
                       if StatusCode resp \<noteq> 201
                       then Inl (structured_error sn ''Missing or invalid fields: ''
                                   (StatusCode resp) (Body resp))
                       else (case Unmarshal_map sn (Body resp) of
                               Inl e \<Rightarrow> Inl (Errorf (''failed to unmarshal issue: '' @ e))
                             | Inr issue \<Rightarrow> Inr issue)),
                calls)))"

definition DeleteIssue ::
  "transport \<Rightarrow> sonic \<Rightarrow> JiraClient \<Rightarrow> string \<Rightarrow> bool \<Rightarrow> error option \<times> http_request list" where
  "DeleteIssue tr sn jc issueKeyOrId deleteSubtasks =
     (let endpoint = ''/rest/api/2/issue/'' @ issueKeyOrId;
          endpoint = (if deleteSubtasks then endpoint @ ''?deleteSubtasks=true'' else endpoint)
      in case makeRequest tr jc ''DELETE'' endpoint None of (r, calls) \<Rightarrow>
           (case r of
              Inl err \<Rightarrow> Some err
            | Inr resp \<Rightarrow>
               (case ReadError resp of
                  Some e \<Rightarrow> Some (Errorf (''failed to read response: '' @ e))
                | None \<Rightarrow>
                   if StatusCode resp \<noteq> 204 \<and> StatusCode resp \<noteq> 200
                   then Some (structured_error sn ''Errors: '' (StatusCode resp) (Body resp))
                   else None),
            calls))"

definition AddComment_body :: "string \<Rightarrow> go_map option \<Rightarrow> go_map \<Rightarrow> go_map" where
  "AddComment_body commentBody visibility additionalFields =
     (let requestBody = [(''body'', Str commentBody)];
          requestBody =
            (case visibility of
               None \<Rightarrow> requestBody
             | Some vis \<Rightarrow> if length (go_range vis) > 0
                           then AList.update ''visibility'' (Obj vis) requestBody
                           else requestBody)
      in range_assign (\<lambda>key val. provided val) (go_range additionalFields) requestBody)"

definition AddComment ::
  "transport \<Rightarrow> sonic \<Rightarrow> JiraClient \<Rightarrow> string \<Rightarrow> string \<Rightarrow> go_map option \<Rightarrow> go_map \<Rightarrow>
   (error + go_map) \<times> http_request list" where
  "AddComment tr sn jc issueKeyOrId commentBody visibility additionalFields =
     (let requestBody = Obj (AddComment_body commentBody visibility additionalFields)
      in case Marshal sn requestBody of
           Inl e \<Rightarrow> (Inl (Errorf (''failed to marshal request body: '' @ e)), [])
         | Inr bodyBytes \<Rightarrow>
            (let endpoint = ''/rest/api/2/issue/'' @ issueKeyOrId @ ''/comment''
             in case makeRequest tr jc ''POST'' endpoint (Some bodyBytes) of (r, calls) \<Rightarrow>
               (case r of
                  Inl err \<Rightarrow> Inl err
                | Inr resp \<Rightarrow>
                   (case ReadError resp of
                      Some e \<Rightarrow> Inl (Errorf (''failed to read response: '' @ e))
                    | None \<Rightarrow>
                       if StatusCode resp \<noteq> 201
                       then Inl (structured_error sn ''Errors: '' (StatusCode resp) (Body resp))
                       else (case Unmarshal_map sn (Body resp) of
                               Inl e \<Rightarrow> Inl (Errorf (''failed to unmarshal comment: '' @ e))
                             | Inr comment \<Rightarrow> Inr comment)),
                calls)))"

section \<open>The action handlers\<close>

text \<open>
  Each handler passes a function of the credentials and the request body to the
  dispatch pipeline. The function returns the result mapping; the model returns beside
  it the requests the client has put on the network on the way.
\<close>

definition validation_error :: "string \<Rightarrow> go_map" where
  "validation_error message = [(''error'', Str ''validation_error''), (''message'', Str message)]"

definition jira_api_error :: "string \<Rightarrow> error \<Rightarrow> go_map" where
  "jira_api_error what err =
     [(''error'', Str ''jira_api_error''), (''message'', Str (what @ Error err))]"

definition ListProjectsHandler_func ::
  "transport \<Rightarrow> sonic \<Rightarrow> JiraCredentials \<Rightarrow> go_map \<Rightarrow> go_map \<times> http_request list" where
  "ListProjectsHandler_func tr sn creds body =
     (let jiraClient = NewJiraClient creds
      in case ListProjects tr sn jiraClient of
           (Inl err, calls) \<Rightarrow> (jira_api_error ''Failed to fetch projects: '' err, calls)
         | (Inr projects, calls) \<Rightarrow>
             ([(''result'', Str ''success''),
               (''message'', Str (''Successfully retrieved '' @ itoa (length projects) @ '' projects'')),
               (''projects'', Arr (map Obj projects)),
               (''count'', Number (int (length projects)))],
              calls))"

text \<open>
  The additional fields of \<open>issues.create\<close>: the object under \<open>additionalFields\<close>, if
  the body has one, and merged into it every other top-level field of the body that is
  not a known field and is neither \<open>nil\<close> nor the empty string.
\<close>

definition CreateIssue_knownFields :: "string list" where
  "CreateIssue_knownFields =
     [''projectKey'', ''issueType'', ''summary'', ''description'', ''additionalFields'']"

definition CreateIssue_additionalFields :: "go_map \<Rightarrow> go_map" where
  "CreateIssue_additionalFields body =
     (let additionalFields = map_of_any (map_of body ''additionalFields'');
          additionalFields = (case additionalFields of None \<Rightarrow> [] | Some m \<Rightarrow> m)
      in range_assign (\<lambda>key val. key \<notin> set CreateIssue_knownFields \<and> provided val)
           (go_range body) additionalFields)"

definition CreateIssueHandler_func ::
  "transport \<Rightarrow> sonic \<Rightarrow> JiraCredentials \<Rightarrow> go_map \<Rightarrow> go_map \<times> http_request list" where
  "CreateIssueHandler_func tr sn creds body =
     (let projectKey = string_of (map_of body ''projectKey'');
          issueType = string_of (map_of body ''issueType'');
          summary = string_of (map_of body ''summary'');
          description = string_of (map_of body ''description'');
          additionalFields = CreateIssue_additionalFields body
      in if projectKey = '''' then (validation_error ''Project key is required'', [])
         else if issueType = '''' then (validation_error ''Issue type is required'', [])
         else if summary = '''' then (validation_error ''Summary is required'', [])
         else (let jiraClient = NewJiraClient creds
               in case CreateIssue tr sn jiraClient projectKey issueType summary description
                         additionalFields of
                    (Inl err, calls) \<Rightarrow> (jira_api_error ''Failed to create issue: '' err, calls)
                  | (Inr issue, calls) \<Rightarrow>
                      (let issueKey = string_of (map_of issue ''key'');
                           issueId = string_of (map_of issue ''id'')
                       in ([(''result'', Str ''success''),
                            (''message'', Str ''Issue created successfully''),
                            (''issueKey'', Str issueKey),
                            (''issueId'', Str issueId),
                            (''issue'', Obj issue)],
                           calls))))"

definition DeleteIssueHandler_func ::
  "transport \<Rightarrow> sonic \<Rightarrow> JiraCredentials \<Rightarrow> go_map \<Rightarrow> go_map \<times> http_request list" where
  "DeleteIssueHandler_func tr sn creds body =
     (let issueKey = string_of (map_of body ''issueKey'');
          deleteSubtasks = (case bool_of (map_of body ''deleteSubtasks'') of
                              Some ds \<Rightarrow> ds | None \<Rightarrow> False)
      in if issueKey = '''' then (validation_error ''Issue key or ID is required'', [])
         else (let jiraClient = NewJiraClient creds
               in case DeleteIssue tr sn jiraClient issueKey deleteSubtasks of
                    (Some err, calls) \<Rightarrow> (jira_api_error ''Failed to delete issue: '' err, calls)
                  | (None, calls) \<Rightarrow>
                      ([(''result'', Str ''success''),
                        (''message'', Str (''Issue '' @ issueKey @ '' deleted successfully'')),
                        (''issueKey'', Str issueKey)],
                       calls)))"

definition AddComment_knownFields :: "string list" where
  "AddComment_knownFields = [''issueKey'', ''commentBody'', ''visibility'', ''additionalFields'']"

definition AddComment_additionalFields :: "go_map \<Rightarrow> go_map" where
  "AddComment_additionalFields body =
     (let additionalFields = map_of_any (map_of body ''additionalFields'');
          additionalFields = (case additionalFields of None \<Rightarrow> [] | Some m \<Rightarrow> m)
      in range_assign (\<lambda>key val. key \<notin> set AddComment_knownFields \<and> provided val)
           (go_range body) additionalFields)"

definition AddCommentHandler_func ::
  "transport \<Rightarrow> sonic \<Rightarrow> JiraCredentials \<Rightarrow> go_map \<Rightarrow> go_map \<times> http_request list" where
  "AddCommentHandler_func tr sn creds body =
     (let issueKey = string_of (map_of body ''issueKey'');
          commentBody = string_of (map_of body ''commentBody'');
          visibility = map_of_any (map_of body ''visibility'');
          additionalFields = AddComment_additionalFields body
      in if issueKey = '''' then (validation_error ''Issue key or ID is required'', [])
         else if commentBody = '''' then (validation_error ''Comment body is required'', [])
         else (let jiraClient = NewJiraClient creds
               in case AddComment tr sn jiraClient issueKey commentBody visibility
                         additionalFields of
                    (Inl err, calls) \<Rightarrow> (jira_api_error ''Failed to add comment: '' err, calls)
                  | (Inr comment, calls) \<Rightarrow>
                      (let commentId = string_of (map_of comment ''id'');
                           commentAuthor = map_of_any (map_of comment ''author'')
                       in ([(''result'', Str ''success''),
                            (''message'', Str (''Comment added successfully to issue '' @ issueKey)),
                            (''issueKey'', Str issueKey),
                            (''commentId'', Str commentId),
                            (''comment'', Obj comment),
                            (''commentAuthor'',
                               (case commentAuthor of None \<Rightarrow> Null | Some a \<Rightarrow> Obj a))],
                           calls))))"

section \<open>The dispatch pipeline\<close>

text \<open>
  A run of the pipeline is the sequence of what it does to the outside, in order: the
  reply on the message's reply address (with the bytes replied), the SDK's
  \<open>RejectWithBody\<close>, the SDK's \<open>StoreEntityIdForJob\<close> and \<open>Done\<close>, the sleep, the
  call of the action's business function, and each request the function puts on the
  network. \<open>response, _ := sonic.Marshal(...)\<close> drops the encoder's error and replies
  what it has, the empty bytes after an error.
\<close>

record nats_Msg =
  Subject :: string
  Data :: string

datatype event =
    Respond string
  | RejectWithBody go_map
  | StoreEntityIdForJob string string
  | Sleep nat
  | Execute string
  | ApiCall http_request
  | Done string go_map

type_synonym action_func = "JiraCredentials \<Rightarrow> go_map \<Rightarrow> go_map \<times> http_request list"

definition marshal_ignoring_error :: "sonic \<Rightarrow> any \<Rightarrow> string" where
  "marshal_ignoring_error sn v = (case Marshal sn v of Inl e \<Rightarrow> '''' | Inr bytes \<Rightarrow> bytes)"

definition credentials_not_configured :: "string \<Rightarrow> string \<Rightarrow> go_map" where
  "credentials_not_configured actionName spaceID =
     (let errorMsg = ''Jira credentials not configured for space '' @ [CHR 0x27] @ spaceID
                       @ [CHR 0x27] @ ''. Please complete the onboarding process first.'';
          errorMsg = (if spaceID = ''''
                      then ''Jira credentials not configured. Please complete the onboarding process first.''
                      else errorMsg)
      in [(''error'', Str ''credentials_not_configured''),
          (''message'', Str errorMsg),
          (''action'', Str actionName),
          (''spaceId'', Str spaceID)])"

text \<open>
  The decoding of the request, the same in both versions of the pipeline: an empty
  payload is the empty body, a payload that decodes gives its \<open>body\<close> (the empty body
  when it has none), a payload that does not decode is the error.
\<close>

definition request_body :: "sonic \<Rightarrow> nats_Msg \<Rightarrow> string + go_map" where
  "request_body sn msg =
     (if length (Data msg) > 0
      then (case Unmarshal_request sn (Data msg) of
              Inl err \<Rightarrow> Inl err
            | Inr requestBody \<Rightarrow> Inr (case requestBody of None \<Rightarrow> [] | Some b \<Rightarrow> b))
      else Inr [])"

text \<open>
  The direct protocol: \<open>handleActionWithCredentialsCheckSync\<close> of
  \<open>actions/issues/handlers.go\<close>.
\<close>

definition handleActionWithCredentialsCheckSync_direct ::
  "sonic \<Rightarrow> CredentialsStorage \<Rightarrow> file_system \<Rightarrow> nats_Msg \<Rightarrow> string \<Rightarrow> action_func \<Rightarrow> event list" where
  "handleActionWithCredentialsCheckSync_direct sn cs fs msg actionName actionFunc =
     (let spaceID = extractSpaceIdFromSubject (Subject msg)
      in case request_body sn msg of
           Inl err \<Rightarrow>
             [Respond (marshal_ignoring_error sn
                (Obj [(''error'', Str ''Invalid request data''),
                      (''message'', Str ''Failed to parse request'')]))]
         | Inr body \<Rightarrow>
             if \<not> HasCredentials cs fs spaceID
             then [Respond (marshal_ignoring_error sn
                     (Obj (credentials_not_configured actionName spaceID)))]
             else (case GetCredentials cs fs spaceID of
                     Inl err \<Rightarrow>
                       [Respond (marshal_ignoring_error sn
                          (Obj [(''error'', Str ''credentials_error''),
                                (''message'', Str (''Failed to retrieve credentials: '' @ Error err))]))]
                   | Inr creds \<Rightarrow>
                       (case actionFunc creds body of (result, calls) \<Rightarrow>
                          Execute actionName # map ApiCall calls @
                          [Respond (case Marshal sn (Obj result) of
                                      Inr response \<Rightarrow> response
                                    | Inl err \<Rightarrow>
                                        marshal_ignoring_error sn
                                          (Obj [(''error'', Str ''internal_error''),
                                                (''message'', Str ''Failed to serialize response'')]))])))"

text \<open>
  The handshake protocol: \<open>handleActionWithCredentialsCheckSync\<close> of the other
  \<open>handlers.go\<close> of package \<open>issues\<close>. \<open>jobID\<close> is the string \<open>uuid.New()\<close> gives,
  \<open>plugin\<close> says that \<open>sdkv2.GetPlugin()\<close> is not \<open>nil\<close>.
\<close>

definition handleActionWithCredentialsCheckSync_handshake ::
  "sonic \<Rightarrow> CredentialsStorage \<Rightarrow> file_system \<Rightarrow> bool \<Rightarrow> string \<Rightarrow> nats_Msg \<Rightarrow> string \<Rightarrow>
   action_func \<Rightarrow> event list" where
  "handleActionWithCredentialsCheckSync_handshake sn cs fs plugin jobID msg actionName actionFunc =
     (let spaceID = extractSpaceIdFromSubject (Subject msg)
      in case request_body sn msg of
           Inl err \<Rightarrow>
             [RejectWithBody [(''error'', Str ''invalid_request''),
                              (''message'', Str ''Failed to parse request'')]]
         | Inr body \<Rightarrow>
             if \<not> HasCredentials cs fs spaceID
             then [RejectWithBody (credentials_not_configured actionName spaceID)]
             else (case GetCredentials cs fs spaceID of
                     Inl err \<Rightarrow>
                       [RejectWithBody
                          [(''error'', Str ''credentials_error''),
                           (''message'', Str (''Failed to retrieve credentials: '' @ Error err))]]
                   | Inr creds \<Rightarrow>
                       (let initResponse = [(''jobId'', Str jobID), (''progress'', Number 0)];
                            stored = (if plugin then [StoreEntityIdForJob jobID spaceID] else [])
                        in case Marshal sn (Obj initResponse) of
                             Inl err \<Rightarrow>
                               stored @
                               [RejectWithBody [(''error'', Str ''internal_error''),
                                                (''message'', Str ''Failed to serialize response'')]]
                           | Inr response \<Rightarrow>
                               (case actionFunc creds body of (result, calls) \<Rightarrow>
                                  stored @ [Respond response, Sleep 1, Execute actionName]
                                  @ map ApiCall calls
                                  @ (if plugin then [Done jobID result] else [])))))"

section \<open>Inputs used in the examples\<close>

definition cs0 :: CredentialsStorage where
  "cs0 = \<lparr>filePath = ''jira_credentials.json''\<rparr>"

definition fresh_fs :: file_system where
  "fresh_fs = \<lparr>content = None, may_read = True, may_write = True\<rparr>"

definition creds0 :: JiraCredentials where
  "creds0 = \<lparr>InstanceURL = ''https://x.atlassian.net'', Email = ''a@b.com'', APIToken = ''tok''\<rparr>"

text \<open>The store after the tenant \<open>S1\<close> has been onboarded.\<close>

definition onboarded_fs :: file_system where
  "onboarded_fs = \<lparr>content = Some (JsonObject [(''S1'', creds0)]), may_read = True, may_write = True\<rparr>"

text \<open>
  An encoder for the examples: the JSON text of a value, its strings written without
  escapes.
\<close>

fun encode :: "any \<Rightarrow> string" where
  "encode Null = ''null''"
| "encode (Str s) = [CHR 0x22] @ s @ [CHR 0x22]"
| "encode (Boolean b) = (if b then ''true'' else ''false'')"
| "encode (Number n) = (if n < 0 then ''-'' @ itoa (nat (- n)) else itoa (nat n))"
| "encode (Arr xs) = ''['' @ strings_Join (map encode xs) '','' @ '']''"
| "encode (Obj m) =
     ''{'' @ strings_Join (map (\<lambda>(k, v). [CHR 0x22] @ k @ [CHR 0x22] @ '':'' @ encode v) m) '',''
     @ ''}''"

text \<open>
  The error body of the specification's scenario, and a remote service that answers
  every request with it under status 400.
\<close>

definition body400 :: string where
  \<open>body400 = ''{"errorMessages":["bad"],"errors":{"summary":"required"}}''\<close>

definition jiraError400 :: jiraError where
  "jiraError400 = \<lparr>ErrorMessages = [''bad''], Errors = [(''summary'', ''required'')]\<rparr>"

definition tr400 :: transport where
  "tr400 = (\<lambda>req. Response \<lparr>StatusCode = 400, Body = body400, ReadError = None\<rparr>)"

text \<open>
  A JSON library for the examples. It encodes with \<open>encode\<close>; of the request
  payloads it decodes the empty envelope \<open>{}\<close> and rejects the rest, among them the
  broken text \<open>{\<close>; it decodes the error body above into its two parts.
\<close>

definition sn0 :: sonic where
  "sn0 = \<lparr>Marshal = (\<lambda>v. Inr (encode v)),
          Unmarshal_request = (\<lambda>s. if s = ''{}'' then Inr None else Inl ''syntax error''),
          Unmarshal_jiraError = (\<lambda>s. if s = body400 then Inr jiraError400 else Inl ''syntax error''),
          Unmarshal_map = (\<lambda>s. Inl ''syntax error''),
          Unmarshal_maps = (\<lambda>s. Inl ''syntax error'')\<rparr>"

definition jc0 :: JiraClient where
  "jc0 = NewJiraClient creds0"

text \<open>
  Two requests for \<open>issues.create\<close> on the topic of tenant \<open>S1\<close>: one with no
  payload, one whose payload is broken JSON; and a body that passes the validation and
  carries the extra top-level field \<open>duedate\<close>.
\<close>

definition msg_empty :: nats_Msg where
  "msg_empty = \<lparr>Subject = ''soren.v2.bin.S1.plugin.issues.create'', Data = ''''\<rparr>"

definition msg_broken :: nats_Msg where
  "msg_broken = \<lparr>Subject = ''soren.v2.bin.S1.plugin.issues.create'', Data = ''{''\<rparr>"

definition body_duedate :: go_map where
  "body_duedate = [(''projectKey'', Str ''P''), (''issueType'', Str ''Task''),
                   (''summary'', Str ''s''), (''duedate'', Str ''2024-12-31'')]"

definition comment_extra :: go_map where
  "comment_extra = [(''issueKey'', Str ''COM-69''), (''commentBody'', Str ''This is a comment''),
                    (''properties'', Arr [])]"

section \<open>Order of events in a run\<close>

text \<open>\<open>precedes x y run\<close>: \<open>x\<close> occurs in the run, and \<open>y\<close> occurs later.\<close>

fun precedes :: "'a \<Rightarrow> 'a \<Rightarrow> 'a list \<Rightarrow> bool" where
  "precedes x y [] = False"
| "precedes x y (e # es) = ((e = x \<and> y \<in> set es) \<or> precedes x y es)"

section \<open>Ranging over a map\<close>

lemma go_range_Nil [simp]: "go_range [] = []"
  by (simp add: go_range_def)

lemma go_range_Cons [simp]: "go_range (p # ps) = p # go_range (AList.delete (fst p) ps)"
  by (simp add: go_range_def)

lemma map_of_go_range [simp]: "map_of (go_range m) = map_of m"
  by (simp add: go_range_def map_of_clearjunk)

lemma distinct_go_range [simp]: "distinct (map fst (go_range m))"
  by (simp add: go_range_def)

lemma keys_go_range [simp]: "fst ` set (go_range m) = fst ` set m"
  by (simp add: go_range_def dom_clearjunk)

section \<open>The credential store: what a load sees\<close>

lemma load_cases:
  "loadAllCredentials cs fs =
     (case content fs of
        None \<Rightarrow> Inl (PathError ''open'' (filePath cs) ENOENT)
      | Some c \<Rightarrow>
          if \<not> may_read fs then Inl (PathError ''open'' (filePath cs) EACCES)
          else (case c of
                  Malformed msg \<Rightarrow> Inl (Errorf (''failed to unmarshal credentials: '' @ msg))
                | JsonNull \<Rightarrow> Inr None
                | JsonObject m \<Rightarrow> Inr (Some m)))"
  by (simp add: loadAllCredentials_def os_ReadFile_def split: option.splits file_content.splits)

lemma save_ok_content:
  assumes "SaveCredentials cs fs T B = (None, fs')"
  shows "content fs' =
           Some (JsonObject (AList.update (spaceKey_of T) B (loaded_map (loadAllCredentials cs fs))))
         \<and> may_read fs'"
  using assms
  by (auto simp: SaveCredentials_def load_cases os_WriteFile_def Let_def
           split: option.splits file_content.splits if_splits errno.splits)




lemma has_iff:
  "HasCredentials cs fs T \<longleftrightarrow>
     (\<exists>m. content fs = Some (JsonObject m) \<and> may_read fs \<and> map_of m (spaceKey_of T) \<noteq> None)"
  by (auto simp: HasCredentials_def GetCredentials_def Let_def load_cases
           split: option.splits file_content.splits sum.splits if_splits)




text \<open>A save never stores one key twice: the collection stays a map.\<close>

lemma save_keeps_distinct:
  assumes "SaveCredentials cs fs T B = (None, fs')"
    and "\<forall>m. content fs = Some (JsonObject m) \<longrightarrow> distinct (map fst m)"
  shows "\<exists>m. content fs' = Some (JsonObject m) \<and> distinct (map fst m)"
  using save_ok_content [OF assms(1)] assms(2)
  by (auto simp: load_cases distinct_update split: option.splits file_content.splits if_splits)

section \<open>Claims about the credential store\<close>



text \<open>
  Claim C4, as the code has it. \<open>GetAllSpaces\<close> returns the keys of the stored
  collection, each of them once, when the file loads (no key for the \<open>null\<close>
  document). When the load fails it returns the empty sequence together with the
  load's error, unchanged: for a missing file that is the not-exist error of
  \<open>os.ReadFile\<close>.
\<close>

theorem C4_GetAllSpaces_keys_or_error:
  "(content fs = Some (JsonObject m) \<and> may_read fs \<longrightarrow>
      snd (GetAllSpaces cs fs) = None
      \<and> set (fst (GetAllSpaces cs fs)) = {k. map_of m k \<noteq> None}
      \<and> distinct (fst (GetAllSpaces cs fs)))
   \<and> (content fs = Some JsonNull \<and> may_read fs \<longrightarrow> GetAllSpaces cs fs = ([], None))
   \<and> (loadAllCredentials cs fs = Inl e \<longrightarrow> GetAllSpaces cs fs = ([], Some e))
   \<and> (content fs = None \<longrightarrow>
        GetAllSpaces cs fs = ([], Some (PathError ''open'' (filePath cs) ENOENT))
        \<and> os_IsNotExist (PathError ''open'' (filePath cs) ENOENT))"
proof (intro conjI impI)
  assume a: "content fs = Some (JsonObject m) \<and> may_read fs"
  then have g: "GetAllSpaces cs fs = (map fst (go_range m), None)"
    by (simp add: GetAllSpaces_def load_cases)
  then show "snd (GetAllSpaces cs fs) = None" by simp
  from g have "set (fst (GetAllSpaces cs fs)) = dom (map_of m)"
    by (simp add: dom_map_of_conv_image_fst)
  then show "set (fst (GetAllSpaces cs fs)) = {k. map_of m k \<noteq> None}"
    by auto
  from g show "distinct (fst (GetAllSpaces cs fs))"
    by simp
next
  assume "content fs = Some JsonNull \<and> may_read fs"
  then show "GetAllSpaces cs fs = ([], None)"
    by (simp add: GetAllSpaces_def load_cases)
next
  assume "loadAllCredentials cs fs = Inl e"
  then show "GetAllSpaces cs fs = ([], Some e)"
    by (simp add: GetAllSpaces_def)
next
  assume "content fs = None"
  then show "GetAllSpaces cs fs = ([], Some (PathError ''open'' (filePath cs) ENOENT))"
    by (simp add: GetAllSpaces_def load_cases)
next
  show "os_IsNotExist (PathError ''open'' (filePath cs) ENOENT)" by simp
qed

theorem C4_GetAllSpaces_keys_or_error_witness:
  "set (fst (GetAllSpaces cs0 \<lparr>content = Some (JsonObject [(''S1'', creds0), (''default'', creds0)]),
                               may_read = True, may_write = True\<rparr>)) = {''S1'', ''default''}
   \<and> GetAllSpaces cs0 fresh_fs = ([], Some (PathError ''open'' ''jira_credentials.json'' ENOENT))"
proof -
  let ?fs = "\<lparr>content = Some (JsonObject [(''S1'', creds0), (''default'', creds0)]),
              may_read = True, may_write = True\<rparr>"
  have "content ?fs = Some (JsonObject [(''S1'', creds0), (''default'', creds0)]) \<and> may_read ?fs"
    by simp
  with C4_GetAllSpaces_keys_or_error [of ?fs "[(''S1'', creds0), (''default'', creds0)]" cs0]
  have "set (fst (GetAllSpaces cs0 ?fs)) = {k. map_of [(''S1'', creds0), (''default'', creds0)] k \<noteq> None}"
    by blast
  then have keys: "set (fst (GetAllSpaces cs0 ?fs)) = {''S1'', ''default''}"
    by auto
  have "content fresh_fs = None" by (simp add: fresh_fs_def)
  with C4_GetAllSpaces_keys_or_error [of fresh_fs _ cs0]
  have "GetAllSpaces cs0 fresh_fs = ([], Some (PathError ''open'' (filePath cs0) ENOENT))"
    by blast
  with keys show ?thesis by (simp add: cs0_def)
qed

text \<open>
  The claim as the specification words it fails on a missing store file: the call
  returns the empty sequence, and with it the not-exist error.
\<close>

theorem C4_missing_file_counterexample:
  "snd (GetAllSpaces cs0 fresh_fs) = Some (PathError ''open'' ''jira_credentials.json'' ENOENT)
   \<and> os_IsNotExist (PathError ''open'' ''jira_credentials.json'' ENOENT)"
  by (simp add: GetAllSpaces_def loadAllCredentials_def os_ReadFile_def fresh_fs_def cs0_def)



section \<open>Claims about the topic router\<close>

lemma extract_loop_none:
  "''bin'' \<notin> set (drop i parts) \<Longrightarrow> extract_loop parts i = ''''"
proof (induction parts i rule: extract_loop.induct)
  case (1 parts i)
  show ?case
  proof (cases "i < length parts")
    case False
    then show ?thesis by (simp add: extract_loop.simps)
  next
    case True
    then have d: "drop i parts = parts ! i # drop (Suc i) parts"
      by (simp add: Cons_nth_drop_Suc)
    with "1.prems" have ne: "parts ! i \<noteq> ''bin''" and rest: "''bin'' \<notin> set (drop (i + 1) parts)"
      by auto
    from "1.IH" [OF True _ rest] ne have "extract_loop parts (i + 1) = ''''" by simp
    with True ne show ?thesis by (subst extract_loop.simps) simp
  qed
qed

lemma extract_loop_skip:
  "i \<le> length pre \<Longrightarrow> ''bin'' \<notin> set (drop i pre) \<Longrightarrow>
   extract_loop (pre @ rest) i = extract_loop (pre @ rest) (length pre)"
proof (induction "length pre - i" arbitrary: i)
  case 0
  then show ?case by simp
next
  case (Suc n)
  then have lt: "i < length pre" by simp
  then have d: "drop i pre = pre ! i # drop (Suc i) pre"
    by (simp add: Cons_nth_drop_Suc)
  with Suc.prems have ne: "pre ! i \<noteq> ''bin''" and rest: "''bin'' \<notin> set (drop (Suc i) pre)"
    by auto
  from Suc.hyps(2) lt have n: "n = length pre - Suc i" by simp
  from lt have le: "Suc i \<le> length pre" by simp
  have "extract_loop (pre @ rest) i = extract_loop (pre @ rest) (Suc i)"
    using lt ne by (subst extract_loop.simps) (simp add: nth_append)
  also have "\<dots> = extract_loop (pre @ rest) (length pre)"
    using Suc.hyps(1) [OF n le rest] .
  finally show ?case .
qed

lemma extract_loop_found:
  assumes "''bin'' \<notin> set pre"
  shows "extract_loop (pre @ ''bin'' # nxt # post) 0 = nxt"
proof -
  have "extract_loop (pre @ ''bin'' # nxt # post) 0 =
        extract_loop (pre @ ''bin'' # nxt # post) (length pre)"
    using assms by (intro extract_loop_skip) simp_all
  also have "\<dots> = nxt"
    by (subst extract_loop.simps) (simp add: nth_append)
  finally show ?thesis .
qed

lemma extract_loop_last:
  assumes "''bin'' \<notin> set pre"
  shows "extract_loop (pre @ [''bin'']) 0 = ''''"
proof -
  have "extract_loop (pre @ [''bin'']) 0 = extract_loop (pre @ [''bin'']) (length pre)"
    using assms by (intro extract_loop_skip) simp_all
  also have "\<dots> = extract_loop (pre @ [''bin'']) (length pre + 1)"
    by (subst extract_loop.simps) simp
  also have "\<dots> = ''''"
    by (subst extract_loop.simps) simp
  finally show ?thesis .
qed

text \<open>The three cases of the claim are all there is: a list of segments is in one of them.\<close>

lemma first_bin_cases:
  "''bin'' \<notin> set parts
   \<or> (\<exists>pre nxt post. parts = pre @ ''bin'' # nxt # post \<and> ''bin'' \<notin> set pre)
   \<or> (\<exists>pre. parts = pre @ [''bin''] \<and> ''bin'' \<notin> set pre)"
proof (cases "''bin'' \<in> set parts")
  case False
  then show ?thesis by simp
next
  case True
  then obtain pre rest where p: "parts = pre @ ''bin'' # rest" "''bin'' \<notin> set pre"
    by (auto dest: split_list_first)
  then show ?thesis by (cases rest) auto
qed

text \<open>
  The model of \<open>strings.Split\<close> against \<open>strings.Join\<close>: a topic built from segments
  that hold no dot splits back into these segments, and every string is the join of its
  segments.
\<close>

lemma split_nonempty: "strings_Split s sep \<noteq> []"
  by (induction s) (auto split: list.splits)

lemma split_join:
  "segs \<noteq> [] \<Longrightarrow> \<forall>s \<in> set segs. sep \<notin> set s \<Longrightarrow>
   strings_Split (strings_Join segs [sep]) sep = segs"
proof (induction segs "[sep]" rule: strings_Join.induct)
  case 1
  then show ?case by simp
next
  case (2 s)
  then have "sep \<notin> set s" by simp
  then show ?case by (induction s) auto
next
  case (3 s t ss)
  then have ih: "strings_Split (strings_Join (t # ss) [sep]) sep = t # ss" by simp
  from 3 have "sep \<notin> set s" by simp
  then show ?case using ih by (induction s) auto
qed

lemma join_split: "strings_Join (strings_Split s sep) [sep] = s"
proof (induction s)
  case Nil
  then show ?case by simp
next
  case (Cons c cs)
  obtain p ps where sp: "strings_Split cs sep = p # ps"
    using split_nonempty [of cs sep] by (cases "strings_Split cs sep") auto
  with Cons show ?case by (cases ps) auto
qed

text \<open>
  Claim C6. \<open>extractSpaceIdFromSubject\<close> is a total function of the topic alone. With
  the topic split at its dots: when no segment is \<open>bin\<close> the result is empty; when the
  first \<open>bin\<close> has a segment after it the result is that segment; when the first
  \<open>bin\<close> is the last segment the result is empty. So \<open>a.bin.T.rest\<close> gives \<open>T\<close>,
  and \<open>a.b.c\<close> and \<open>x.bin\<close> give the empty string.
\<close>

theorem C6_extractSpaceIdFromSubject:
  "(''bin'' \<notin> set (strings_Split subject CHR ''.'') \<longrightarrow> extractSpaceIdFromSubject subject = '''')
   \<and> (strings_Split subject CHR ''.'' = pre @ ''bin'' # nxt # post \<and> ''bin'' \<notin> set pre \<longrightarrow>
        extractSpaceIdFromSubject subject = nxt)
   \<and> (strings_Split subject CHR ''.'' = pre @ [''bin''] \<and> ''bin'' \<notin> set pre \<longrightarrow>
        extractSpaceIdFromSubject subject = '''')
   \<and> extractSpaceIdFromSubject ''a.bin.T.rest'' = ''T''
   \<and> extractSpaceIdFromSubject ''a.b.c'' = ''''
   \<and> extractSpaceIdFromSubject ''x.bin'' = ''''"
proof (intro conjI impI)
  assume "''bin'' \<notin> set (strings_Split subject CHR ''.'')"
  then show "extractSpaceIdFromSubject subject = ''''"
    by (simp add: extractSpaceIdFromSubject_def extract_loop_none)
next
  assume "strings_Split subject CHR ''.'' = pre @ ''bin'' # nxt # post \<and> ''bin'' \<notin> set pre"
  then show "extractSpaceIdFromSubject subject = nxt"
    by (simp add: extractSpaceIdFromSubject_def extract_loop_found)
next
  assume "strings_Split subject CHR ''.'' = pre @ [''bin''] \<and> ''bin'' \<notin> set pre"
  then show "extractSpaceIdFromSubject subject = ''''"
    by (simp add: extractSpaceIdFromSubject_def extract_loop_last)
next
  show "extractSpaceIdFromSubject ''a.bin.T.rest'' = ''T''"
    by (simp add: extractSpaceIdFromSubject_def extract_loop.simps)
next
  show "extractSpaceIdFromSubject ''a.b.c'' = ''''"
    by (simp add: extractSpaceIdFromSubject_def extract_loop.simps)
next
  show "extractSpaceIdFromSubject ''x.bin'' = ''''"
    by (simp add: extractSpaceIdFromSubject_def extract_loop.simps)
qed

theorem C6_extractSpaceIdFromSubject_witness:
  "strings_Split ''soren.v2.bin.S1.plugin.issues.create'' CHR ''.''
     = [''soren'', ''v2''] @ ''bin'' # ''S1'' # [''plugin'', ''issues'', ''create'']
   \<and> extractSpaceIdFromSubject ''soren.v2.bin.S1.plugin.issues.create'' = ''S1''
   \<and> extractSpaceIdFromSubject ''soren.v2.plugin'' = ''''
   \<and> extractSpaceIdFromSubject ''soren.v2.bin'' = ''''"
  using C6_extractSpaceIdFromSubject
          [of "''soren.v2.bin.S1.plugin.issues.create''" "[''soren'', ''v2'']" "''S1''"
              "[''plugin'', ''issues'', ''create'']"]
        C6_extractSpaceIdFromSubject [of "''soren.v2.plugin''"]
        C6_extractSpaceIdFromSubject [of "''soren.v2.bin''" "[''soren'', ''v2'']"]
  by simp

section \<open>Claims about the API adapter\<close>

lemma itoa_400: "itoa 400 = ''400''"
  by (simp add: itoa.simps)

lemma structured_error_400:
  assumes "Unmarshal_jiraError sn b = Inr jiraError400"
  shows "structured_error sn label 400 b =
           Errorf (''Jira API error (status 400): bad. '' @ label @ ''summary: required'')"
  using assms
  by (simp add: structured_error_def jiraError400_def api_error_def itoa_400)

lemma makeRequest_tr400:
  "\<exists>calls. makeRequest tr400 jc method endpoint body =
     (Inr \<lparr>StatusCode = 400, Body = body400, ReadError = None\<rparr>, calls)"
  by (simp add: makeRequest_def tr400_def Let_def)

lemma makeRequest_tr400_case:
  "fst (case makeRequest tr400 jc method endpoint body of (r, calls) \<Rightarrow> (f r, calls)) =
     f (Inr \<lparr>StatusCode = 400, Body = body400, ReadError = None\<rparr>)"
proof -
  obtain calls where "makeRequest tr400 jc method endpoint body =
      (Inr \<lparr>StatusCode = 400, Body = body400, ReadError = None\<rparr>, calls)"
    using makeRequest_tr400 by blast
  then show ?thesis by simp
qed

lemma ListProjects_400:
  "fst (ListProjects tr400 sn jc) = Inl (Errorf (''Jira API error (status 400): '' @ body400))"
  by (simp add: ListProjects_def makeRequest_tr400_case api_error_def itoa_400)

text \<open>
  \<open>ListProjects\<close> puts the raw body into its message on every status but 200,
  whatever the body is and whatever the JSON library makes of it.
\<close>

lemma ListProjects_raw_body:
  assumes "StatusCode resp \<noteq> 200"
  shows "fst (ListProjects (\<lambda>req. Response resp) sn jc) =
           Inl (api_error (StatusCode resp) (Body resp))"
  using assms
  by (simp add: ListProjects_def makeRequest_def Let_def)

text \<open>
  The three operations that parse the error body. On the scenario's response their
  message holds both \<open>bad\<close> and \<open>summary: required\<close>, with any JSON library that
  decodes the body into its two parts and encodes the request.
\<close>

lemma CreateIssue_400:
  assumes "Unmarshal_jiraError sn body400 = Inr jiraError400"
    and "Marshal sn (Obj [(''fields'', Obj (CreateIssue_fields pk it su d af))]) = Inr bytes"
  shows "fst (CreateIssue tr400 sn jc pk it su d af) =
           Inl (Errorf ''Jira API error (status 400): bad. Missing or invalid fields: summary: required'')"
  using assms
  by (simp add: CreateIssue_def Let_def makeRequest_tr400_case structured_error_400)

lemma DeleteIssue_400:
  assumes "Unmarshal_jiraError sn body400 = Inr jiraError400"
  shows "fst (DeleteIssue tr400 sn jc key ds) =
           Some (Errorf ''Jira API error (status 400): bad. Errors: summary: required'')"
  using assms
  by (simp add: DeleteIssue_def Let_def makeRequest_tr400_case structured_error_400)

lemma AddComment_400:
  assumes "Unmarshal_jiraError sn body400 = Inr jiraError400"
    and "Marshal sn (Obj (AddComment_body cb vis af)) = Inr bytes"
  shows "fst (AddComment tr400 sn jc key cb vis af) =
           Inl (Errorf ''Jira API error (status 400): bad. Errors: summary: required'')"
  using assms
  by (simp add: AddComment_def Let_def makeRequest_tr400_case structured_error_400)

lemma parsed_messages_contain_both:
  "sublist ''bad'' ''Jira API error (status 400): bad. Missing or invalid fields: summary: required''
   \<and> sublist ''summary: required''
        ''Jira API error (status 400): bad. Missing or invalid fields: summary: required''
   \<and> sublist ''bad'' ''Jira API error (status 400): bad. Errors: summary: required''
   \<and> sublist ''summary: required'' ''Jira API error (status 400): bad. Errors: summary: required''"
  by (simp add: sublist_Cons_right)

text \<open>
  Claim C5 fails for the operation list. \<open>ListProjects\<close> does not parse the error
  body: on the scenario's response (status 400, the structured body) its message is
  the status line followed by the raw body, which holds \<open>bad\<close> but not the text
  \<open>summary: required\<close> (the raw JSON has \<open>"summary":"required"\<close>).
\<close>

theorem C5_ListProjects_raw_error_body:
  \<open>fst (ListProjects tr400 sn0 jc0) =
     Inl (Errorf ''Jira API error (status 400): {"errorMessages":["bad"],"errors":{"summary":"required"}}'')
   \<and> sublist ''bad''
         ''Jira API error (status 400): {"errorMessages":["bad"],"errors":{"summary":"required"}}''
   \<and> \<not> sublist ''summary: required''
         ''Jira API error (status 400): {"errorMessages":["bad"],"errors":{"summary":"required"}}''\<close>
proof (intro conjI)
  show \<open>fst (ListProjects tr400 sn0 jc0) =
     Inl (Errorf ''Jira API error (status 400): {"errorMessages":["bad"],"errors":{"summary":"required"}}'')\<close>
    by (simp add: ListProjects_400 body400_def)
  show \<open>sublist ''bad''
         ''Jira API error (status 400): {"errorMessages":["bad"],"errors":{"summary":"required"}}''\<close>
    by (simp add: sublist_Cons_right)
  show \<open>\<not> sublist ''summary: required''
         ''Jira API error (status 400): {"errorMessages":["bad"],"errors":{"summary":"required"}}''\<close>
    by (simp add: sublist_Cons_right)
qed

section \<open>Claims about the handlers\<close>

lemma range_assign_lookup:
  "distinct (map fst src) \<Longrightarrow>
   map_of (range_assign cond src dst) k =
     (case map_of src k of
        Some v \<Rightarrow> if cond k v then Some v else map_of dst k
      | None \<Rightarrow> map_of dst k)"
proof (induction src arbitrary: dst)
  case Nil
  then show ?case by simp
next
  case (Cons p src)
  obtain key val where p: "p = (key, val)" by (cases p)
  from Cons.prems have d: "distinct (map fst src)" and notin: "key \<notin> fst ` set src"
    by (auto simp: p)
  from notin have none: "map_of src key = None"
    by (simp add: map_of_eq_None_iff)
  show ?case
    using Cons.IH [OF d] none
    by (auto simp: p update_conv' split: option.splits)
qed

lemma range_assign_go_range:
  "map_of (range_assign cond (go_range src) dst) k =
     (case map_of src k of
        Some v \<Rightarrow> if cond k v then Some v else map_of dst k
      | None \<Rightarrow> map_of dst k)"
  using range_assign_lookup [of "go_range src" cond dst k] by simp

lemma create_merge:
  assumes "map_of body k = Some v" "k \<notin> set CreateIssue_knownFields" "provided v"
  shows "map_of (CreateIssue_additionalFields body) k = Some v"
  using assms by (simp add: CreateIssue_additionalFields_def Let_def range_assign_go_range)

lemma create_fields:
  assumes "map_of af k = Some v" "provided v"
  shows "map_of (CreateIssue_fields pk it su d af) k = Some v"
  using assms by (simp add: CreateIssue_fields_def Let_def range_assign_go_range)

lemma comment_merge:
  assumes "map_of body k = Some v" "k \<notin> set AddComment_knownFields" "provided v"
  shows "map_of (AddComment_additionalFields body) k = Some v"
  using assms by (simp add: AddComment_additionalFields_def Let_def range_assign_go_range)

lemma comment_body:
  assumes "map_of af k = Some v" "provided v"
  shows "map_of (AddComment_body cb vis af) k = Some v"
  using assms by (simp add: AddComment_body_def Let_def range_assign_go_range)

text \<open>Every request a client function sends carries the bytes it was given.\<close>

lemma makeRequest_calls:
  "makeRequest tr jc method endpoint body = (r, calls) \<Longrightarrow> req \<in> set calls \<Longrightarrow>
   ReqBody req = body"
  by (auto simp: makeRequest_def Let_def split: transport_result.splits)

lemma makeRequest_sends:
  "\<forall>r e. tr r \<noteq> NewRequestError e \<Longrightarrow> snd (makeRequest tr jc method endpoint body) \<noteq> []"
  by (auto simp: makeRequest_def Let_def split: transport_result.splits)

lemma CreateIssue_calls:
  assumes "req \<in> set (snd (CreateIssue tr sn jc pk it su d af))"
  shows "\<exists>bytes. Marshal sn (Obj [(''fields'', Obj (CreateIssue_fields pk it su d af))]) = Inr bytes
           \<and> ReqBody req = Some bytes"
  using assms
  by (auto simp: CreateIssue_def Let_def split: sum.splits prod.splits dest: makeRequest_calls)

lemma CreateIssue_sends:
  assumes "Marshal sn (Obj [(''fields'', Obj (CreateIssue_fields pk it su d af))]) = Inr bytes"
    and "\<forall>r e. tr r \<noteq> NewRequestError e"
  shows "snd (CreateIssue tr sn jc pk it su d af) \<noteq> []"
  using assms(1) makeRequest_sends [OF assms(2), of jc "''POST''" "''/rest/api/2/issue''" "Some bytes"]
  by (auto simp: CreateIssue_def Let_def split: prod.splits)

lemma AddComment_calls:
  assumes "req \<in> set (snd (AddComment tr sn jc key cb vis af))"
  shows "\<exists>bytes. Marshal sn (Obj (AddComment_body cb vis af)) = Inr bytes
           \<and> ReqBody req = Some bytes"
  using assms
  by (auto simp: AddComment_def Let_def split: sum.splits prod.splits dest: makeRequest_calls)

lemma AddComment_sends:
  assumes "Marshal sn (Obj (AddComment_body cb vis af)) = Inr bytes"
    and "\<forall>r e. tr r \<noteq> NewRequestError e"
  shows "snd (AddComment tr sn jc key cb vis af) \<noteq> []"
  using assms(1)
    makeRequest_sends [OF assms(2), of jc "''POST''" "''/rest/api/2/issue/'' @ key @ ''/comment''"
      "Some bytes"]
  by (auto simp: AddComment_def Let_def split: prod.splits)

lemma CreateIssueHandler_calls:
  "snd (CreateIssueHandler_func tr sn creds body) =
     (if string_of (map_of body ''projectKey'') = '''' \<or> string_of (map_of body ''issueType'') = ''''
         \<or> string_of (map_of body ''summary'') = '''' then []
      else snd (CreateIssue tr sn (NewJiraClient creds)
                  (string_of (map_of body ''projectKey'')) (string_of (map_of body ''issueType''))
                  (string_of (map_of body ''summary'')) (string_of (map_of body ''description''))
                  (CreateIssue_additionalFields body)))"
  by (simp add: CreateIssueHandler_func_def Let_def split: prod.splits sum.splits)

lemma AddCommentHandler_calls:
  "snd (AddCommentHandler_func tr sn creds body) =
     (if string_of (map_of body ''issueKey'') = '''' \<or> string_of (map_of body ''commentBody'') = ''''
      then []
      else snd (AddComment tr sn (NewJiraClient creds)
                  (string_of (map_of body ''issueKey'')) (string_of (map_of body ''commentBody''))
                  (map_of_any (map_of body ''visibility''))
                  (AddComment_additionalFields body)))"
  by (simp add: AddCommentHandler_func_def Let_def split: prod.splits sum.splits)

text \<open>The three checks of \<open>issues.create\<close>, in the order the handler makes them.\<close>

lemma create_missing_projectKey:
  "string_of (map_of body ''projectKey'') = '''' \<Longrightarrow>
   CreateIssueHandler_func tr sn creds body = (validation_error ''Project key is required'', [])"
  by (simp add: CreateIssueHandler_func_def Let_def)

lemma create_missing_issueType:
  "string_of (map_of body ''projectKey'') \<noteq> '''' \<Longrightarrow> string_of (map_of body ''issueType'') = '''' \<Longrightarrow>
   CreateIssueHandler_func tr sn creds body = (validation_error ''Issue type is required'', [])"
  by (simp add: CreateIssueHandler_func_def Let_def)

lemma create_missing_summary:
  "string_of (map_of body ''projectKey'') \<noteq> '''' \<Longrightarrow> string_of (map_of body ''issueType'') \<noteq> '''' \<Longrightarrow>
   string_of (map_of body ''summary'') = '''' \<Longrightarrow>
   CreateIssueHandler_func tr sn creds body = (validation_error ''Summary is required'', [])"
  by (simp add: CreateIssueHandler_func_def Let_def)

text \<open>
  Claim C8, as the code has it. A body is missing the summary when its \<open>summary\<close>
  entry is absent, is no string, or is the empty string. For every such body the
  handler of \<open>issues.create\<close> returns a mapping tagged \<open>validation_error\<close> and sends
  nothing to the remote API; the mapping is
  \<open>{"error":"validation_error","message":"Summary is required"}\<close> when the body has a
  project key and an issue type.
\<close>

theorem C8_create_missing_summary:
  "(map_of body ''summary'' = None \<longrightarrow> string_of (map_of body ''summary'') = '''')
   \<and> (string_of (map_of body ''summary'') = '''' \<longrightarrow>
        snd (CreateIssueHandler_func tr sn creds body) = []
        \<and> map_of (fst (CreateIssueHandler_func tr sn creds body)) ''error''
            = Some (Str ''validation_error''))
   \<and> (string_of (map_of body ''summary'') = '''' \<and> string_of (map_of body ''projectKey'') \<noteq> ''''
        \<and> string_of (map_of body ''issueType'') \<noteq> '''' \<longrightarrow>
        CreateIssueHandler_func tr sn creds body =
          ([(''error'', Str ''validation_error''), (''message'', Str ''Summary is required'')], []))"
proof (intro conjI impI)
  assume "map_of body ''summary'' = None"
  then show "string_of (map_of body ''summary'') = ''''" by simp
next
  assume s: "string_of (map_of body ''summary'') = ''''"
  then show "snd (CreateIssueHandler_func tr sn creds body) = []"
    by (simp add: CreateIssueHandler_calls)
  from s show "map_of (fst (CreateIssueHandler_func tr sn creds body)) ''error''
                 = Some (Str ''validation_error'')"
    by (simp add: CreateIssueHandler_func_def Let_def validation_error_def)
next
  assume "string_of (map_of body ''summary'') = '''' \<and> string_of (map_of body ''projectKey'') \<noteq> ''''
            \<and> string_of (map_of body ''issueType'') \<noteq> ''''"
  then show "CreateIssueHandler_func tr sn creds body =
               ([(''error'', Str ''validation_error''), (''message'', Str ''Summary is required'')], [])"
    by (simp add: create_missing_summary validation_error_def)
qed

theorem C8_create_missing_summary_witness:
  "map_of [(''projectKey'', Str ''P''), (''issueType'', Str ''Task'')] ''summary'' = None
   \<and> CreateIssueHandler_func tr400 sn0 creds0 [(''projectKey'', Str ''P''), (''issueType'', Str ''Task'')]
       = ([(''error'', Str ''validation_error''), (''message'', Str ''Summary is required'')], [])"
proof -
  let ?body = "[(''projectKey'', Str ''P''), (''issueType'', Str ''Task'')]"
  have "string_of (map_of ?body ''summary'') = '''' \<and> string_of (map_of ?body ''projectKey'') \<noteq> ''''
          \<and> string_of (map_of ?body ''issueType'') \<noteq> ''''"
    by simp
  with C8_create_missing_summary [of ?body tr400 sn0 creds0]
  have "CreateIssueHandler_func tr400 sn0 creds0 ?body =
          ([(''error'', Str ''validation_error''), (''message'', Str ''Summary is required'')], [])"
    by blast
  then show ?thesis by simp
qed

text \<open>
  The claim as the specification words it fails on the empty body: it is missing the
  summary, and the handler answers that the project key is required.
\<close>

theorem C8_empty_body_counterexample:
  "map_of ([] :: go_map) ''summary'' = None
   \<and> fst (CreateIssueHandler_func tr400 sn0 creds0 [])
       = [(''error'', Str ''validation_error''), (''message'', Str ''Project key is required'')]
   \<and> fst (CreateIssueHandler_func tr400 sn0 creds0 [])
       \<noteq> [(''error'', Str ''validation_error''), (''message'', Str ''Summary is required'')]"
  by (simp add: CreateIssueHandler_func_def Let_def validation_error_def)

text \<open>
  Claim C10. The handler of \<open>issues.create\<close> checks the project key, then the issue
  type, then the summary, and returns at the first that is missing: the one message of
  the result names the first missing field in that order, and nothing is sent.
\<close>

theorem C10_create_validation_order:
  "(string_of (map_of body ''projectKey'') = '''' \<longrightarrow>
      CreateIssueHandler_func tr sn creds body = (validation_error ''Project key is required'', []))
   \<and> (string_of (map_of body ''projectKey'') \<noteq> '''' \<and> string_of (map_of body ''issueType'') = '''' \<longrightarrow>
      CreateIssueHandler_func tr sn creds body = (validation_error ''Issue type is required'', []))
   \<and> (string_of (map_of body ''projectKey'') \<noteq> '''' \<and> string_of (map_of body ''issueType'') \<noteq> ''''
        \<and> string_of (map_of body ''summary'') = '''' \<longrightarrow>
      CreateIssueHandler_func tr sn creds body = (validation_error ''Summary is required'', []))
   \<and> validation_error message = [(''error'', Str ''validation_error''), (''message'', Str message)]"
  by (simp add: create_missing_projectKey create_missing_issueType create_missing_summary
        validation_error_def)

theorem C10_create_validation_order_witness:
  "string_of (map_of [(''issueType'', Str ''Task'')] ''projectKey'') = ''''
   \<and> string_of (map_of [(''issueType'', Str ''Task'')] ''summary'') = ''''
   \<and> CreateIssueHandler_func tr400 sn0 creds0 [(''issueType'', Str ''Task'')]
       = ([(''error'', Str ''validation_error''), (''message'', Str ''Project key is required'')], [])
   \<and> CreateIssueHandler_func tr400 sn0 creds0 [(''projectKey'', Str ''P'')]
       = ([(''error'', Str ''validation_error''), (''message'', Str ''Issue type is required'')], [])"
proof -
  have a: "string_of (map_of [(''issueType'', Str ''Task'')] ''projectKey'') = ''''" by simp
  have b: "string_of (map_of [(''projectKey'', Str ''P'')] ''projectKey'') \<noteq> ''''
           \<and> string_of (map_of [(''projectKey'', Str ''P'')] ''issueType'') = ''''" by simp
  from C10_create_validation_order [of "[(''issueType'', Str ''Task'')]" tr400 sn0 creds0
         "''Project key is required''"] a
  have r1: "CreateIssueHandler_func tr400 sn0 creds0 [(''issueType'', Str ''Task'')]
       = ([(''error'', Str ''validation_error''), (''message'', Str ''Project key is required'')], [])"
    by simp
  from C10_create_validation_order [of "[(''projectKey'', Str ''P'')]" tr400 sn0 creds0
         "''Issue type is required''"] b
  have r2: "CreateIssueHandler_func tr400 sn0 creds0 [(''projectKey'', Str ''P'')]
       = ([(''error'', Str ''validation_error''), (''message'', Str ''Issue type is required'')], [])"
    by simp
  from r1 r2 show ?thesis by simp
qed

text \<open>
  Claim C9. In the handlers of \<open>issues.create\<close> and \<open>issues.comment\<close>, a top-level
  field of the body that is not one of the action's known fields and whose value is
  neither \<open>nil\<close> nor the empty string is in the merged \<open>additionalFields\<close> with its
  value, and every request the handler sends carries the encoding of a document that
  holds the field with that value: among the \<open>fields\<close> of the new issue, at the top
  level of the new comment. The handler does send a request when the validation passes,
  the document encodes and the request can be built.
\<close>

theorem C9_extra_fields_forwarded:
  "(map_of body k = Some v \<and> provided v \<and> k \<notin> set CreateIssue_knownFields \<longrightarrow>
      map_of (CreateIssue_additionalFields body) k = Some v
      \<and> (\<forall>req \<in> set (snd (CreateIssueHandler_func tr sn creds body)).
            \<exists>fields bytes. map_of fields k = Some v
               \<and> Marshal sn (Obj [(''fields'', Obj fields)]) = Inr bytes \<and> ReqBody req = Some bytes))
   \<and> (map_of body k = Some v \<and> provided v \<and> k \<notin> set AddComment_knownFields \<longrightarrow>
      map_of (AddComment_additionalFields body) k = Some v
      \<and> (\<forall>req \<in> set (snd (AddCommentHandler_func tr sn creds body)).
            \<exists>requestBody bytes. map_of requestBody k = Some v
               \<and> Marshal sn (Obj requestBody) = Inr bytes \<and> ReqBody req = Some bytes))
   \<and> (string_of (map_of body ''projectKey'') \<noteq> '''' \<and> string_of (map_of body ''issueType'') \<noteq> ''''
        \<and> string_of (map_of body ''summary'') \<noteq> '''' \<and> (\<forall>r e. tr r \<noteq> NewRequestError e)
        \<and> (\<forall>doc. \<exists>bytes. Marshal sn doc = Inr bytes) \<longrightarrow>
      snd (CreateIssueHandler_func tr sn creds body) \<noteq> [])
   \<and> (string_of (map_of body ''issueKey'') \<noteq> '''' \<and> string_of (map_of body ''commentBody'') \<noteq> ''''
        \<and> (\<forall>r e. tr r \<noteq> NewRequestError e) \<and> (\<forall>doc. \<exists>bytes. Marshal sn doc = Inr bytes) \<longrightarrow>
      snd (AddCommentHandler_func tr sn creds body) \<noteq> [])"
proof (intro conjI impI ballI)
  assume a: "map_of body k = Some v \<and> provided v \<and> k \<notin> set CreateIssue_knownFields"
  then show m: "map_of (CreateIssue_additionalFields body) k = Some v"
    by (simp add: create_merge)
  fix req
  assume "req \<in> set (snd (CreateIssueHandler_func tr sn creds body))"
  then have "req \<in> set (snd (CreateIssue tr sn (NewJiraClient creds)
                  (string_of (map_of body ''projectKey'')) (string_of (map_of body ''issueType''))
                  (string_of (map_of body ''summary'')) (string_of (map_of body ''description''))
                  (CreateIssue_additionalFields body)))"
    by (simp add: CreateIssueHandler_calls split: if_splits)
  from CreateIssue_calls [OF this] create_fields [OF m] a
  show "\<exists>fields bytes. map_of fields k = Some v
          \<and> Marshal sn (Obj [(''fields'', Obj fields)]) = Inr bytes \<and> ReqBody req = Some bytes"
    by blast
next
  assume a: "map_of body k = Some v \<and> provided v \<and> k \<notin> set AddComment_knownFields"
  then show m: "map_of (AddComment_additionalFields body) k = Some v"
    by (simp add: comment_merge)
  fix req
  assume "req \<in> set (snd (AddCommentHandler_func tr sn creds body))"
  then have "req \<in> set (snd (AddComment tr sn (NewJiraClient creds)
                  (string_of (map_of body ''issueKey'')) (string_of (map_of body ''commentBody''))
                  (map_of_any (map_of body ''visibility''))
                  (AddComment_additionalFields body)))"
    by (simp add: AddCommentHandler_calls split: if_splits)
  from AddComment_calls [OF this] comment_body [OF m] a
  show "\<exists>requestBody bytes. map_of requestBody k = Some v
          \<and> Marshal sn (Obj requestBody) = Inr bytes \<and> ReqBody req = Some bytes"
    by blast
next
  assume a: "string_of (map_of body ''projectKey'') \<noteq> '''' \<and> string_of (map_of body ''issueType'') \<noteq> ''''
        \<and> string_of (map_of body ''summary'') \<noteq> '''' \<and> (\<forall>r e. tr r \<noteq> NewRequestError e)
        \<and> (\<forall>doc. \<exists>bytes. Marshal sn doc = Inr bytes)"
  then obtain bytes where
    "Marshal sn (Obj [(''fields'', Obj (CreateIssue_fields
        (string_of (map_of body ''projectKey'')) (string_of (map_of body ''issueType''))
        (string_of (map_of body ''summary'')) (string_of (map_of body ''description''))
        (CreateIssue_additionalFields body)))]) = Inr bytes"
    by blast
  from CreateIssue_sends [OF this] a
  show "snd (CreateIssueHandler_func tr sn creds body) \<noteq> []"
    by (simp add: CreateIssueHandler_calls)
next
  assume a: "string_of (map_of body ''issueKey'') \<noteq> '''' \<and> string_of (map_of body ''commentBody'') \<noteq> ''''
        \<and> (\<forall>r e. tr r \<noteq> NewRequestError e) \<and> (\<forall>doc. \<exists>bytes. Marshal sn doc = Inr bytes)"
  then obtain bytes where
    "Marshal sn (Obj (AddComment_body (string_of (map_of body ''commentBody''))
        (map_of_any (map_of body ''visibility'')) (AddComment_additionalFields body))) = Inr bytes"
    by blast
  from AddComment_sends [OF this] a
  show "snd (AddCommentHandler_func tr sn creds body) \<noteq> []"
    by (simp add: AddCommentHandler_calls)
qed

theorem C9_extra_fields_forwarded_witness:
  "map_of (CreateIssue_additionalFields body_duedate) ''duedate'' = Some (Str ''2024-12-31'')
   \<and> (\<exists>req fields bytes. req \<in> set (snd (CreateIssueHandler_func tr400 sn0 creds0 body_duedate))
         \<and> map_of fields ''duedate'' = Some (Str ''2024-12-31'')
         \<and> Marshal sn0 (Obj [(''fields'', Obj fields)]) = Inr bytes \<and> ReqBody req = Some bytes)
   \<and> map_of (AddComment_additionalFields comment_extra) ''properties'' = Some (Arr [])
   \<and> (\<exists>req requestBody bytes. req \<in> set (snd (AddCommentHandler_func tr400 sn0 creds0 comment_extra))
         \<and> map_of requestBody ''properties'' = Some (Arr [])
         \<and> Marshal sn0 (Obj requestBody) = Inr bytes \<and> ReqBody req = Some bytes)"
proof -
  have env: "(\<forall>r e. tr400 r \<noteq> NewRequestError e) \<and> (\<forall>doc. \<exists>bytes. Marshal sn0 doc = Inr bytes)"
    by (simp add: tr400_def sn0_def)
  have c1: "map_of body_duedate ''duedate'' = Some (Str ''2024-12-31'') \<and> provided (Str ''2024-12-31'')
            \<and> ''duedate'' \<notin> set CreateIssue_knownFields"
    by (simp add: body_duedate_def provided_def CreateIssue_knownFields_def)
  have c2: "string_of (map_of body_duedate ''projectKey'') \<noteq> ''''
            \<and> string_of (map_of body_duedate ''issueType'') \<noteq> ''''
            \<and> string_of (map_of body_duedate ''summary'') \<noteq> ''''"
    by (simp add: body_duedate_def)
  have a1: "map_of comment_extra ''properties'' = Some (Arr []) \<and> provided (Arr [])
            \<and> ''properties'' \<notin> set AddComment_knownFields"
    by (simp add: comment_extra_def provided_def AddComment_knownFields_def)
  have a2: "string_of (map_of comment_extra ''issueKey'') \<noteq> ''''
            \<and> string_of (map_of comment_extra ''commentBody'') \<noteq> ''''"
    by (simp add: comment_extra_def)
  note create = C9_extra_fields_forwarded [of body_duedate "''duedate''" "Str ''2024-12-31''" tr400 sn0 creds0]
  note comment = C9_extra_fields_forwarded [of comment_extra "''properties''" "Arr []" tr400 sn0 creds0]
  from create c1 c2 env
  have r1: "map_of (CreateIssue_additionalFields body_duedate) ''duedate'' = Some (Str ''2024-12-31'')"
    and r2: "\<forall>req \<in> set (snd (CreateIssueHandler_func tr400 sn0 creds0 body_duedate)).
            \<exists>fields bytes. map_of fields ''duedate'' = Some (Str ''2024-12-31'')
               \<and> Marshal sn0 (Obj [(''fields'', Obj fields)]) = Inr bytes \<and> ReqBody req = Some bytes"
    and r3: "snd (CreateIssueHandler_func tr400 sn0 creds0 body_duedate) \<noteq> []"
    by blast+
  from r3 obtain req where "req \<in> set (snd (CreateIssueHandler_func tr400 sn0 creds0 body_duedate))"
    by (cases "snd (CreateIssueHandler_func tr400 sn0 creds0 body_duedate)") auto
  with r2 have e1: "\<exists>req fields bytes. req \<in> set (snd (CreateIssueHandler_func tr400 sn0 creds0 body_duedate))
         \<and> map_of fields ''duedate'' = Some (Str ''2024-12-31'')
         \<and> Marshal sn0 (Obj [(''fields'', Obj fields)]) = Inr bytes \<and> ReqBody req = Some bytes"
    by blast
  from comment a1 a2 env
  have s1: "map_of (AddComment_additionalFields comment_extra) ''properties'' = Some (Arr [])"
    and s2: "\<forall>req \<in> set (snd (AddCommentHandler_func tr400 sn0 creds0 comment_extra)).
            \<exists>requestBody bytes. map_of requestBody ''properties'' = Some (Arr [])
               \<and> Marshal sn0 (Obj requestBody) = Inr bytes \<and> ReqBody req = Some bytes"
    and s3: "snd (AddCommentHandler_func tr400 sn0 creds0 comment_extra) \<noteq> []"
    by blast+
  from s3 obtain req where "req \<in> set (snd (AddCommentHandler_func tr400 sn0 creds0 comment_extra))"
    by (cases "snd (AddCommentHandler_func tr400 sn0 creds0 comment_extra)") auto
  with s2 have e2: "\<exists>req requestBody bytes. req \<in> set (snd (AddCommentHandler_func tr400 sn0 creds0 comment_extra))
         \<and> map_of requestBody ''properties'' = Some (Arr [])
         \<and> Marshal sn0 (Obj requestBody) = Inr bytes \<and> ReqBody req = Some bytes"
    by blast
  from r1 e1 s1 e2 show ?thesis by blast
qed

section \<open>Claims about the dispatch pipeline\<close>

lemma spaceID_S1: "extractSpaceIdFromSubject ''soren.v2.bin.S1.plugin.issues.create'' = ''S1''"
  by (simp add: extractSpaceIdFromSubject_def extract_loop.simps)

lemma request_body_cases:
  "request_body sn msg =
     (if Data msg = '''' then Inr []
      else (case Unmarshal_request sn (Data msg) of
              Inl err \<Rightarrow> Inl err
            | Inr requestBody \<Rightarrow> Inr (case requestBody of None \<Rightarrow> [] | Some b \<Rightarrow> b)))"
  by (simp add: request_body_def)

lemma direct_unconfigured:
  assumes "\<not> HasCredentials cs fs (extractSpaceIdFromSubject (Subject msg))"
  shows "handleActionWithCredentialsCheckSync_direct sn cs fs msg actionName actionFunc =
     (case request_body sn msg of
        Inl err \<Rightarrow> [Respond (marshal_ignoring_error sn
                       (Obj [(''error'', Str ''Invalid request data''),
                             (''message'', Str ''Failed to parse request'')]))]
      | Inr body \<Rightarrow> [Respond (marshal_ignoring_error sn
                       (Obj (credentials_not_configured actionName
                              (extractSpaceIdFromSubject (Subject msg)))))])"
  using assms
  by (simp add: handleActionWithCredentialsCheckSync_direct_def Let_def split: sum.splits)

lemma handshake_unconfigured:
  assumes "\<not> HasCredentials cs fs (extractSpaceIdFromSubject (Subject msg))"
  shows "handleActionWithCredentialsCheckSync_handshake sn cs fs plugin jobID msg actionName actionFunc =
     (case request_body sn msg of
        Inl err \<Rightarrow> [RejectWithBody [(''error'', Str ''invalid_request''),
                                      (''message'', Str ''Failed to parse request'')]]
      | Inr body \<Rightarrow> [RejectWithBody (credentials_not_configured actionName
                                       (extractSpaceIdFromSubject (Subject msg)))])"
  using assms
  by (simp add: handleActionWithCredentialsCheckSync_handshake_def Let_def split: sum.splits)

lemma handshake_run:
  assumes "request_body sn msg = Inr body"
    and "GetCredentials cs fs (extractSpaceIdFromSubject (Subject msg)) = Inr creds"
    and "Marshal sn (Obj [(''jobId'', Str jobID), (''progress'', Number 0)]) = Inr ack"
    and "actionFunc creds body = (result, calls)"
  shows "handleActionWithCredentialsCheckSync_handshake sn cs fs plugin jobID msg actionName actionFunc =
           (if plugin then [StoreEntityIdForJob jobID (extractSpaceIdFromSubject (Subject msg))] else [])
           @ [Respond ack, Sleep 1, Execute actionName] @ map ApiCall calls
           @ (if plugin then [Done jobID result] else [])"
  using assms
  by (simp add: handleActionWithCredentialsCheckSync_handshake_def Let_def HasCredentials_def)

lemma handshake_executes:
  assumes "Execute a \<in> set (handleActionWithCredentialsCheckSync_handshake sn cs fs plugin jobID msg
                               actionName actionFunc)"
  shows "\<exists>body creds ack. request_body sn msg = Inr body
           \<and> GetCredentials cs fs (extractSpaceIdFromSubject (Subject msg)) = Inr creds
           \<and> Marshal sn (Obj [(''jobId'', Str jobID), (''progress'', Number 0)]) = Inr ack
           \<and> a = actionName"
  using assms
  by (auto simp: handleActionWithCredentialsCheckSync_handshake_def Let_def
           split: sum.splits if_splits prod.splits)

text \<open>\<open>precedes\<close> says what it should: the run splits at \<open>x\<close> and, later, at \<open>y\<close>.\<close>

lemma precedes_iff: "precedes x y t \<longleftrightarrow> (\<exists>pre mid post. t = pre @ x # mid @ y # post)"
proof (induction t)
  case Nil
  then show ?case by simp
next
  case (Cons e es)
  show ?case
  proof
    assume "precedes x y (e # es)"
    then consider "e = x" "y \<in> set es" | "precedes x y es" by auto
    then show "\<exists>pre mid post. e # es = pre @ x # mid @ y # post"
    proof cases
      case 1
      then obtain mid post where "es = mid @ y # post" by (auto simp: in_set_conv_decomp)
      with 1 have "e # es = [] @ x # mid @ y # post" by simp
      then show ?thesis by blast
    next
      case 2
      with Cons obtain pre mid post where "es = pre @ x # mid @ y # post" by blast
      then have "e # es = (e # pre) @ x # mid @ y # post" by simp
      then show ?thesis by blast
    qed
  next
    assume "\<exists>pre mid post. e # es = pre @ x # mid @ y # post"
    then obtain pre mid post where eq: "e # es = pre @ x # mid @ y # post" by blast
    show "precedes x y (e # es)"
    proof (cases pre)
      case Nil
      with eq show ?thesis by auto
    next
      case (Cons p pre')
      with eq have "es = pre' @ x # mid @ y # post" by simp
      with Cons.IH have "precedes x y es" by blast
      then show ?thesis by simp
    qed
  qed
qed

text \<open>
  Claim C1, as the code has it. For a request whose tenant has no stored credentials,
  neither version of the pipeline calls the business function or sends a request to the
  remote API, whatever the payload. The payload is decoded before the credentials are
  looked at: when it is empty or decodes, the one thing the pipeline does is reply the
  mapping tagged \<open>credentials_not_configured\<close>, which carries the tenant id under
  \<open>spaceId\<close> and the action name under \<open>action\<close>; when it does not decode, the one
  thing it does is reply the invalid-request error.
\<close>

theorem C1_unconfigured_tenant:
  "\<not> HasCredentials cs fs (extractSpaceIdFromSubject (Subject msg)) \<longrightarrow>
     (let spaceID = extractSpaceIdFromSubject (Subject msg);
          direct = handleActionWithCredentialsCheckSync_direct sn cs fs msg actionName actionFunc;
          handshake = handleActionWithCredentialsCheckSync_handshake sn cs fs plugin jobID msg
                        actionName actionFunc
      in Execute a \<notin> set direct \<and> ApiCall c \<notin> set direct
         \<and> Execute a \<notin> set handshake \<and> ApiCall c \<notin> set handshake
         \<and> (Data msg = '''' \<or> Unmarshal_request sn (Data msg) = Inr requestBody \<longrightarrow>
              direct = [Respond (marshal_ignoring_error sn
                                  (Obj (credentials_not_configured actionName spaceID)))]
              \<and> handshake = [RejectWithBody (credentials_not_configured actionName spaceID)])
         \<and> (Data msg \<noteq> '''' \<and> Unmarshal_request sn (Data msg) = Inl err \<longrightarrow>
              direct = [Respond (marshal_ignoring_error sn
                                  (Obj [(''error'', Str ''Invalid request data''),
                                        (''message'', Str ''Failed to parse request'')]))]
              \<and> handshake = [RejectWithBody [(''error'', Str ''invalid_request''),
                                               (''message'', Str ''Failed to parse request'')]])
         \<and> map_of (credentials_not_configured actionName spaceID) ''error''
              = Some (Str ''credentials_not_configured'')
         \<and> map_of (credentials_not_configured actionName spaceID) ''spaceId'' = Some (Str spaceID)
         \<and> map_of (credentials_not_configured actionName spaceID) ''action'' = Some (Str actionName))"
proof
  assume no: "\<not> HasCredentials cs fs (extractSpaceIdFromSubject (Subject msg))"
  note d = direct_unconfigured [OF no, of sn actionName actionFunc]
  note h = handshake_unconfigured [OF no, of sn plugin jobID actionName actionFunc]
  have quiet: "Execute a \<notin> set (handleActionWithCredentialsCheckSync_direct sn cs fs msg actionName actionFunc)
      \<and> ApiCall c \<notin> set (handleActionWithCredentialsCheckSync_direct sn cs fs msg actionName actionFunc)
      \<and> Execute a \<notin> set (handleActionWithCredentialsCheckSync_handshake sn cs fs plugin jobID msg
                            actionName actionFunc)
      \<and> ApiCall c \<notin> set (handleActionWithCredentialsCheckSync_handshake sn cs fs plugin jobID msg
                            actionName actionFunc)"
    by (simp add: d h split: sum.splits)
  have decoded: "Data msg = '''' \<or> Unmarshal_request sn (Data msg) = Inr requestBody \<Longrightarrow>
      \<exists>body. request_body sn msg = Inr body"
    by (auto simp: request_body_cases)
  have broken: "Data msg \<noteq> '''' \<and> Unmarshal_request sn (Data msg) = Inl err \<Longrightarrow>
      request_body sn msg = Inl err"
    by (simp add: request_body_cases)
  have payload: "map_of (credentials_not_configured actionName (extractSpaceIdFromSubject (Subject msg)))
           ''error'' = Some (Str ''credentials_not_configured'')
      \<and> map_of (credentials_not_configured actionName (extractSpaceIdFromSubject (Subject msg)))
           ''spaceId'' = Some (Str (extractSpaceIdFromSubject (Subject msg)))
      \<and> map_of (credentials_not_configured actionName (extractSpaceIdFromSubject (Subject msg)))
           ''action'' = Some (Str actionName)"
    by (simp add: credentials_not_configured_def Let_def)
  show "let spaceID = extractSpaceIdFromSubject (Subject msg);
          direct = handleActionWithCredentialsCheckSync_direct sn cs fs msg actionName actionFunc;
          handshake = handleActionWithCredentialsCheckSync_handshake sn cs fs plugin jobID msg
                        actionName actionFunc
      in Execute a \<notin> set direct \<and> ApiCall c \<notin> set direct
         \<and> Execute a \<notin> set handshake \<and> ApiCall c \<notin> set handshake
         \<and> (Data msg = '''' \<or> Unmarshal_request sn (Data msg) = Inr requestBody \<longrightarrow>
              direct = [Respond (marshal_ignoring_error sn
                                  (Obj (credentials_not_configured actionName spaceID)))]
              \<and> handshake = [RejectWithBody (credentials_not_configured actionName spaceID)])
         \<and> (Data msg \<noteq> '''' \<and> Unmarshal_request sn (Data msg) = Inl err \<longrightarrow>
              direct = [Respond (marshal_ignoring_error sn
                                  (Obj [(''error'', Str ''Invalid request data''),
                                        (''message'', Str ''Failed to parse request'')]))]
              \<and> handshake = [RejectWithBody [(''error'', Str ''invalid_request''),
                                               (''message'', Str ''Failed to parse request'')]])
         \<and> map_of (credentials_not_configured actionName spaceID) ''error''
              = Some (Str ''credentials_not_configured'')
         \<and> map_of (credentials_not_configured actionName spaceID) ''spaceId'' = Some (Str spaceID)
         \<and> map_of (credentials_not_configured actionName spaceID) ''action'' = Some (Str actionName)"
    unfolding Let_def
  proof (intro conjI impI)
    assume dec: "Data msg = '''' \<or> Unmarshal_request sn (Data msg) = Inr requestBody"
    from decoded [OF dec] obtain body where "request_body sn msg = Inr body" by blast
    then show "handleActionWithCredentialsCheckSync_direct sn cs fs msg actionName actionFunc =
        [Respond (marshal_ignoring_error sn
           (Obj (credentials_not_configured actionName (extractSpaceIdFromSubject (Subject msg)))))]"
      and "handleActionWithCredentialsCheckSync_handshake sn cs fs plugin jobID msg actionName actionFunc =
        [RejectWithBody (credentials_not_configured actionName (extractSpaceIdFromSubject (Subject msg)))]"
      by (simp_all add: d h)
  next
    assume br: "Data msg \<noteq> '''' \<and> Unmarshal_request sn (Data msg) = Inl err"
    from broken [OF br]
    show "handleActionWithCredentialsCheckSync_direct sn cs fs msg actionName actionFunc =
        [Respond (marshal_ignoring_error sn
           (Obj [(''error'', Str ''Invalid request data''), (''message'', Str ''Failed to parse request'')]))]"
      and "handleActionWithCredentialsCheckSync_handshake sn cs fs plugin jobID msg actionName actionFunc =
        [RejectWithBody [(''error'', Str ''invalid_request''), (''message'', Str ''Failed to parse request'')]]"
      by (simp_all add: d h)
  qed (use quiet payload in simp_all)
qed


lemma fresh_has_none: "\<not> HasCredentials cs fresh_fs T"
  by (simp add: has_iff fresh_fs_def)

theorem C1_unconfigured_tenant_witness:
  "\<not> HasCredentials cs0 fresh_fs (extractSpaceIdFromSubject (Subject msg_empty))
   \<and> handleActionWithCredentialsCheckSync_direct sn0 cs0 fresh_fs msg_empty ''issues.create''
        (CreateIssueHandler_func tr400 sn0)
       = [Respond (encode (Obj (credentials_not_configured ''issues.create'' ''S1'')))]
   \<and> handleActionWithCredentialsCheckSync_handshake sn0 cs0 fresh_fs True ''job-1'' msg_empty
        ''issues.create'' (CreateIssueHandler_func tr400 sn0)
       = [RejectWithBody (credentials_not_configured ''issues.create'' ''S1'')]
   \<and> map_of (credentials_not_configured ''issues.create'' ''S1'') ''spaceId'' = Some (Str ''S1'')
   \<and> map_of (credentials_not_configured ''issues.create'' ''S1'') ''action''
       = Some (Str ''issues.create'')"
proof -
  have no: "\<not> HasCredentials cs0 fresh_fs (extractSpaceIdFromSubject (Subject msg_empty))"
    by (rule fresh_has_none)
  have empty: "Data msg_empty = ''''"
    by (simp add: msg_empty_def)
  have tenant: "extractSpaceIdFromSubject (Subject msg_empty) = ''S1''"
    by (simp add: msg_empty_def spaceID_S1)
  have enc: "marshal_ignoring_error sn0 v = encode v" for v
    by (simp add: marshal_ignoring_error_def sn0_def)
  from C1_unconfigured_tenant [of cs0 fresh_fs msg_empty sn0 "''issues.create''"
         "CreateIssueHandler_func tr400 sn0" True "''job-1''"] no empty
  show ?thesis
    by (simp add: Let_def tenant enc)
qed

text \<open>
  The claim as the specification words it fails on a payload that does not decode: the
  tenant has no credentials, and the reply is the invalid-request error, not the
  mapping tagged \<open>credentials_not_configured\<close>.
\<close>

theorem C1_broken_payload_counterexample:
  "\<not> HasCredentials cs0 fresh_fs (extractSpaceIdFromSubject (Subject msg_broken))
   \<and> handleActionWithCredentialsCheckSync_handshake sn0 cs0 fresh_fs True ''job-1'' msg_broken
        ''issues.create'' (CreateIssueHandler_func tr400 sn0)
       = [RejectWithBody [(''error'', Str ''invalid_request''),
                          (''message'', Str ''Failed to parse request'')]]
   \<and> handleActionWithCredentialsCheckSync_direct sn0 cs0 fresh_fs msg_broken ''issues.create''
        (CreateIssueHandler_func tr400 sn0)
       = [Respond (encode (Obj [(''error'', Str ''Invalid request data''),
                                (''message'', Str ''Failed to parse request'')]))]
   \<and> [RejectWithBody [(''error'', Str ''invalid_request''), (''message'', Str ''Failed to parse request'')]]
       \<noteq> [RejectWithBody (credentials_not_configured ''issues.create'' ''S1'')]
   \<and> encode (Obj [(''error'', Str ''Invalid request data''), (''message'', Str ''Failed to parse request'')])
       \<noteq> encode (Obj (credentials_not_configured ''issues.create'' ''S1''))"
proof -
  have no: "\<not> HasCredentials cs0 fresh_fs (extractSpaceIdFromSubject (Subject msg_broken))"
    by (rule fresh_has_none)
  have broken: "request_body sn0 msg_broken = Inl ''syntax error''"
    by (simp add: request_body_def msg_broken_def sn0_def)
  have enc: "marshal_ignoring_error sn0 v = encode v" for v
    by (simp add: marshal_ignoring_error_def sn0_def)
  have h: "handleActionWithCredentialsCheckSync_handshake sn0 cs0 fresh_fs True ''job-1'' msg_broken
        ''issues.create'' (CreateIssueHandler_func tr400 sn0)
       = [RejectWithBody [(''error'', Str ''invalid_request''),
                          (''message'', Str ''Failed to parse request'')]]"
    by (simp add: handshake_unconfigured [OF no] broken)
  have d: "handleActionWithCredentialsCheckSync_direct sn0 cs0 fresh_fs msg_broken ''issues.create''
        (CreateIssueHandler_func tr400 sn0)
       = [Respond (encode (Obj [(''error'', Str ''Invalid request data''),
                                (''message'', Str ''Failed to parse request'')]))]"
    by (simp only: direct_unconfigured [OF no] broken enc sum.case)
  have ne1: "[RejectWithBody [(''error'', Str ''invalid_request''), (''message'', Str ''Failed to parse request'')]]
       \<noteq> [RejectWithBody (credentials_not_configured ''issues.create'' ''S1'')]"
    by (simp add: credentials_not_configured_def)
  have ne2: "encode (Obj [(''error'', Str ''Invalid request data''), (''message'', Str ''Failed to parse request'')])
       \<noteq> encode (Obj (credentials_not_configured ''issues.create'' ''S1''))"
    by (simp add: credentials_not_configured_def)
  from no h d ne1 ne2 show ?thesis by blast
qed

text \<open>
  Claim C2, as the code has it. In a run of the handshake pipeline that gets to the
  handshake (the payload decodes, the tenant's credentials load, the acknowledgment
  \<open>{jobId, progress: 0}\<close> encodes), the acknowledgment is replied before the business
  function is executed, whatever the function returns. When a plugin instance is
  registered, the association of the job handle with the tenant is recorded before the
  acknowledgment and the completion event is published under the job handle after the
  function has run. When none is registered, no association is recorded and no
  completion event is published. The business function is executed in no other run.
\<close>

theorem C2_handshake_order:
  "(let spaceID = extractSpaceIdFromSubject (Subject msg);
        run = handleActionWithCredentialsCheckSync_handshake sn cs fs plugin jobID msg actionName
                actionFunc
    in (request_body sn msg = Inr body \<and> GetCredentials cs fs spaceID = Inr creds
        \<and> Marshal sn (Obj [(''jobId'', Str jobID), (''progress'', Number 0)]) = Inr ack
        \<and> actionFunc creds body = (result, calls) \<longrightarrow>
          run = (if plugin then [StoreEntityIdForJob jobID spaceID] else [])
                @ [Respond ack, Sleep 1, Execute actionName] @ map ApiCall calls
                @ (if plugin then [Done jobID result] else [])
          \<and> precedes (Respond ack) (Execute actionName) run
          \<and> (plugin \<longrightarrow> precedes (StoreEntityIdForJob jobID spaceID) (Respond ack) run
                       \<and> precedes (StoreEntityIdForJob jobID spaceID) (Execute actionName) run
                       \<and> precedes (Respond ack) (Done jobID result) run
                       \<and> precedes (Execute actionName) (Done jobID result) run)
          \<and> (\<not> plugin \<longrightarrow> StoreEntityIdForJob j s \<notin> set run \<and> Done j r \<notin> set run))
       \<and> (Execute a \<in> set run \<longrightarrow>
            (\<exists>ack'. Marshal sn (Obj [(''jobId'', Str jobID), (''progress'', Number 0)]) = Inr ack'
                    \<and> precedes (Respond ack') (Execute a) run)))"
  unfolding Let_def
proof (intro conjI impI)
  assume a: "request_body sn msg = Inr body
        \<and> GetCredentials cs fs (extractSpaceIdFromSubject (Subject msg)) = Inr creds
        \<and> Marshal sn (Obj [(''jobId'', Str jobID), (''progress'', Number 0)]) = Inr ack
        \<and> actionFunc creds body = (result, calls)"
  then have run: "handleActionWithCredentialsCheckSync_handshake sn cs fs plugin jobID msg actionName
        actionFunc =
          (if plugin then [StoreEntityIdForJob jobID (extractSpaceIdFromSubject (Subject msg))] else [])
          @ [Respond ack, Sleep 1, Execute actionName] @ map ApiCall calls
          @ (if plugin then [Done jobID result] else [])"
    using handshake_run [where actionFunc = actionFunc and sn = sn and msg = msg and body = body
                           and cs = cs and fs = fs and creds = creds and jobID = jobID and ack = ack
                           and result = result and calls = calls]
    by blast
  then show "handleActionWithCredentialsCheckSync_handshake sn cs fs plugin jobID msg actionName
        actionFunc =
          (if plugin then [StoreEntityIdForJob jobID (extractSpaceIdFromSubject (Subject msg))] else [])
          @ [Respond ack, Sleep 1, Execute actionName] @ map ApiCall calls
          @ (if plugin then [Done jobID result] else [])" .
  show "precedes (Respond ack) (Execute actionName)
          (handleActionWithCredentialsCheckSync_handshake sn cs fs plugin jobID msg actionName actionFunc)"
    by (simp add: run)
  {
    assume plugin
    then show "precedes (StoreEntityIdForJob jobID (extractSpaceIdFromSubject (Subject msg))) (Respond ack)
          (handleActionWithCredentialsCheckSync_handshake sn cs fs plugin jobID msg actionName actionFunc)"
      and "precedes (StoreEntityIdForJob jobID (extractSpaceIdFromSubject (Subject msg))) (Execute actionName)
          (handleActionWithCredentialsCheckSync_handshake sn cs fs plugin jobID msg actionName actionFunc)"
      and "precedes (Respond ack) (Done jobID result)
          (handleActionWithCredentialsCheckSync_handshake sn cs fs plugin jobID msg actionName actionFunc)"
      and "precedes (Execute actionName) (Done jobID result)
          (handleActionWithCredentialsCheckSync_handshake sn cs fs plugin jobID msg actionName actionFunc)"
      unfolding run by simp_all
  }
  {
    assume "\<not> plugin"
    then show "StoreEntityIdForJob j s
          \<notin> set (handleActionWithCredentialsCheckSync_handshake sn cs fs plugin jobID msg actionName actionFunc)"
      and "Done j r
          \<notin> set (handleActionWithCredentialsCheckSync_handshake sn cs fs plugin jobID msg actionName actionFunc)"
      unfolding run by auto
  }
next
  assume ex: "Execute a \<in> set (handleActionWithCredentialsCheckSync_handshake sn cs fs plugin jobID msg
                               actionName actionFunc)"
  from handshake_executes [OF ex] obtain body creds ack where
    b: "request_body sn msg = Inr body"
    and c: "GetCredentials cs fs (extractSpaceIdFromSubject (Subject msg)) = Inr creds"
    and m: "Marshal sn (Obj [(''jobId'', Str jobID), (''progress'', Number 0)]) = Inr ack"
    and n: "a = actionName"
    by blast
  obtain result calls where f: "actionFunc creds body = (result, calls)"
    by (cases "actionFunc creds body")
  have "precedes (Respond ack) (Execute a)
          (handleActionWithCredentialsCheckSync_handshake sn cs fs plugin jobID msg actionName actionFunc)"
    by (simp add: handshake_run [where actionFunc = actionFunc, OF b c m f] n)
  with m show "\<exists>ack'. Marshal sn (Obj [(''jobId'', Str jobID), (''progress'', Number 0)]) = Inr ack'
      \<and> precedes (Respond ack') (Execute a)
          (handleActionWithCredentialsCheckSync_handshake sn cs fs plugin jobID msg actionName actionFunc)"
    by blast
qed

lemma onboarded_get: "GetCredentials cs0 onboarded_fs ''S1'' = Inr creds0"
  by (simp add: GetCredentials_def load_cases onboarded_fs_def spaceKey_of_def)

lemma empty_request: "request_body sn0 msg_empty = Inr []"
  by (simp add: request_body_def msg_empty_def)

lemma create_empty_body:
  "CreateIssueHandler_func tr400 sn0 creds0 [] = (validation_error ''Project key is required'', [])"
  by (simp add: create_missing_projectKey)

theorem C2_handshake_order_witness:
  "handleActionWithCredentialsCheckSync_handshake sn0 cs0 onboarded_fs True ''job-1'' msg_empty
     ''issues.create'' (CreateIssueHandler_func tr400 sn0)
     = [StoreEntityIdForJob ''job-1'' ''S1'',
        Respond (encode (Obj [(''jobId'', Str ''job-1''), (''progress'', Number 0)])),
        Sleep 1, Execute ''issues.create'',
        Done ''job-1'' (validation_error ''Project key is required'')]
   \<and> precedes (Respond (encode (Obj [(''jobId'', Str ''job-1''), (''progress'', Number 0)])))
        (Execute ''issues.create'')
        (handleActionWithCredentialsCheckSync_handshake sn0 cs0 onboarded_fs True ''job-1'' msg_empty
           ''issues.create'' (CreateIssueHandler_func tr400 sn0))
   \<and> precedes (Respond (encode (Obj [(''jobId'', Str ''job-1''), (''progress'', Number 0)])))
        (Done ''job-1'' (validation_error ''Project key is required''))
        (handleActionWithCredentialsCheckSync_handshake sn0 cs0 onboarded_fs True ''job-1'' msg_empty
           ''issues.create'' (CreateIssueHandler_func tr400 sn0))"
proof -
  have tenant: "extractSpaceIdFromSubject (Subject msg_empty) = ''S1''"
    by (simp add: msg_empty_def spaceID_S1)
  have hyp: "request_body sn0 msg_empty = Inr []
      \<and> GetCredentials cs0 onboarded_fs (extractSpaceIdFromSubject (Subject msg_empty)) = Inr creds0
      \<and> Marshal sn0 (Obj [(''jobId'', Str ''job-1''), (''progress'', Number 0)])
          = Inr (encode (Obj [(''jobId'', Str ''job-1''), (''progress'', Number 0)]))
      \<and> CreateIssueHandler_func tr400 sn0 creds0 []
          = (validation_error ''Project key is required'', [])"
  proof (intro conjI)
    show "Marshal sn0 (Obj [(''jobId'', Str ''job-1''), (''progress'', Number 0)])
          = Inr (encode (Obj [(''jobId'', Str ''job-1''), (''progress'', Number 0)]))"
      by (simp add: sn0_def)
  qed (simp_all add: empty_request tenant onboarded_get create_empty_body)
  from C2_handshake_order [of msg_empty sn0 cs0 onboarded_fs True "''job-1''" "''issues.create''"
         "CreateIssueHandler_func tr400 sn0" "[]" creds0
         "encode (Obj [(''jobId'', Str ''job-1''), (''progress'', Number 0)])"
         "validation_error ''Project key is required''" "[]"] hyp
  show ?thesis
    unfolding Let_def tenant by simp
qed

text \<open>
  The claim as the specification words it fails when no plugin instance is registered:
  the business function is executed after the acknowledgment, and the association of
  the job handle with the tenant is never recorded, nor is a completion event published.
\<close>

theorem C2_no_plugin_counterexample:
  "handleActionWithCredentialsCheckSync_handshake sn0 cs0 onboarded_fs False ''job-1'' msg_empty
     ''issues.create'' (CreateIssueHandler_func tr400 sn0)
     = [Respond (encode (Obj [(''jobId'', Str ''job-1''), (''progress'', Number 0)])),
        Sleep 1, Execute ''issues.create'']
   \<and> StoreEntityIdForJob ''job-1'' ''S1''
       \<notin> set (handleActionWithCredentialsCheckSync_handshake sn0 cs0 onboarded_fs False ''job-1''
                 msg_empty ''issues.create'' (CreateIssueHandler_func tr400 sn0))
   \<and> Done ''job-1'' (validation_error ''Project key is required'')
       \<notin> set (handleActionWithCredentialsCheckSync_handshake sn0 cs0 onboarded_fs False ''job-1''
                 msg_empty ''issues.create'' (CreateIssueHandler_func tr400 sn0))"
proof -
  have tenant: "extractSpaceIdFromSubject (Subject msg_empty) = ''S1''"
    by (simp add: msg_empty_def spaceID_S1)
  have get: "GetCredentials cs0 onboarded_fs (extractSpaceIdFromSubject (Subject msg_empty)) = Inr creds0"
    by (simp add: tenant onboarded_get)
  have ack: "Marshal sn0 (Obj [(''jobId'', Str ''job-1''), (''progress'', Number 0)])
          = Inr (encode (Obj [(''jobId'', Str ''job-1''), (''progress'', Number 0)]))"
    by (simp add: sn0_def)
  have "handleActionWithCredentialsCheckSync_handshake sn0 cs0 onboarded_fs False ''job-1'' msg_empty
     ''issues.create'' (CreateIssueHandler_func tr400 sn0)
     = [Respond (encode (Obj [(''jobId'', Str ''job-1''), (''progress'', Number 0)])),
        Sleep 1, Execute ''issues.create'']"
    using handshake_run [where actionFunc = "CreateIssueHandler_func tr400 sn0" and plugin = False
                           and actionName = "''issues.create''",
                         OF empty_request get ack create_empty_body]
    by simp
  then show ?thesis by simp
qed


end
